theory Spec2Isabelle
  imports Complex_Main
begin

section \<open>JavaScript values\<close>

text \<open>
  The values that reach \<open>remote.js\<close>. A JavaScript number is modelled as an exact
  rational, the two infinities or NaN (rounding of doubles is not modelled); objects and
  functions are opaque. A property that is absent reads as \<open>Undefined\<close>.
\<close>

datatype number = Fin rat | PosInf | NegInf | NaN

datatype jsval =
    Undefined
  | Null
  | Bool bool
  | Number number
  | String string
  | Object
  | Function nat

datatype error = TypeError string | Error string

fun typeof :: "jsval \<Rightarrow> string" where
  "typeof Undefined = ''undefined''"
| "typeof Null = ''object''"
| "typeof (Bool b) = ''boolean''"
| "typeof (Number n) = ''number''"
| "typeof (String s) = ''string''"
| "typeof Object = ''object''"
| "typeof (Function f) = ''function''"

text \<open>\<open>Boolean(v)\<close>, also the truthiness test of \<open>if (v)\<close>, \<open>v || d\<close> and \<open>!v\<close>.\<close>

fun Boolean :: "jsval \<Rightarrow> bool" where
  "Boolean Undefined = False"
| "Boolean Null = False"
| "Boolean (Bool b) = b"
| "Boolean (Number (Fin q)) = (q \<noteq> 0)"
| "Boolean (Number NaN) = False"
| "Boolean (Number n) = True"
| "Boolean (String s) = (s \<noteq> [])"
| "Boolean Object = True"
| "Boolean (Function f) = True"

fun num_add :: "number \<Rightarrow> number \<Rightarrow> number" where
  "num_add NaN y = NaN"
| "num_add x NaN = NaN"
| "num_add PosInf NegInf = NaN"
| "num_add NegInf PosInf = NaN"
| "num_add PosInf y = PosInf"
| "num_add x PosInf = PosInf"
| "num_add NegInf y = NegInf"
| "num_add x NegInf = NegInf"
| "num_add (Fin a) (Fin b) = Fin (a + b)"

fun num_times :: "number \<Rightarrow> number \<Rightarrow> number" where
  "num_times NaN y = NaN"
| "num_times x NaN = NaN"
| "num_times (Fin a) (Fin b) = Fin (a * b)"
| "num_times (Fin a) PosInf = (if a = 0 then NaN else if 0 < a then PosInf else NegInf)"
| "num_times (Fin a) NegInf = (if a = 0 then NaN else if 0 < a then NegInf else PosInf)"
| "num_times PosInf (Fin b) = (if b = 0 then NaN else if 0 < b then PosInf else NegInf)"
| "num_times NegInf (Fin b) = (if b = 0 then NaN else if 0 < b then NegInf else PosInf)"
| "num_times PosInf PosInf = PosInf"
| "num_times NegInf NegInf = PosInf"
| "num_times PosInf NegInf = NegInf"
| "num_times NegInf PosInf = NegInf"

text \<open>\<open>x >= y\<close> on numbers: false as soon as one side is NaN.\<close>

fun num_ge :: "number \<Rightarrow> number \<Rightarrow> bool" where
  "num_ge NaN y = False"
| "num_ge x NaN = False"
| "num_ge PosInf y = True"
| "num_ge x NegInf = True"
| "num_ge (Fin a) (Fin b) = (b \<le> a)"
| "num_ge (Fin a) PosInf = False"
| "num_ge NegInf y = False"

text \<open>
  A field that holds a number or is still \<open>undefined\<close>: \<open>undefined\<close> converts to NaN
  under \<open>+\<close> and under \<open>>=\<close>.
\<close>

fun ToNumber :: "number option \<Rightarrow> number" where
  "ToNumber None = NaN"
| "ToNumber (Some n) = n"

text \<open>\<open>String.prototype.toUpperCase\<close> on the ASCII letters.\<close>

definition toUpperCase_char :: "char \<Rightarrow> char" where
  "toUpperCase_char c =
     (case map_of (zip ''abcdefghijklmnopqrstuvwxyz'' ''ABCDEFGHIJKLMNOPQRSTUVWXYZ'') c of
        None \<Rightarrow> c
      | Some u \<Rightarrow> u)"

definition toUpperCase :: "string \<Rightarrow> string" where
  "toUpperCase s = map toUpperCase_char s"

text \<open>The test \<open>/^request_/.test(s)\<close>.\<close>

definition starts_with_request :: "string \<Rightarrow> bool" where
  "starts_with_request s = (take 8 s = ''request_'')"

section \<open>Messages, events and the Remote\<close>

text \<open>
  A \<open>ledgerClosed\<close> message as parsed from the wire: every field may be missing or of any
  type, which \<open>isValidLedgerData\<close> checks.
\<close>

record ledger_message =
  fee_base :: jsval
  fee_ref :: jsval
  ledger_hash :: jsval
  ledger_index :: jsval
  ledger_time :: jsval
  reserve_base :: jsval
  reserve_inc :: jsval
  txn_count :: jsval

text \<open>
  The acknowledgment of a subscribe request. The handler does not check it; the fields
  carry the types of the server's protocol, \<open>None\<close> for an absent field.
\<close>

record subscribe_message =
  sub_stand_alone :: "bool option"
  sub_testnet :: "bool option"
  sub_ledger_hash :: "string option"
  sub_ledger_index :: "number option"
  sub_ledger_time :: "number option"

text \<open>
  A \<open>transaction\<close> message: \<open>tx_hash\<close> is \<open>message.transaction.hash\<close>,
  \<open>tx_validated\<close> the truthiness of \<open>message.validated\<close>, \<open>tx_meta\<close> what the
  \<open>Meta\<close> collaborator derives from \<open>message.meta || message.metadata\<close> when there is
  one (the affected accounts and the affected books), \<open>tx_Account\<close> and
  \<open>tx_Destination\<close> the two fields of \<open>message.transaction\<close>.
\<close>

record tx_message =
  tx_hash :: string
  tx_validated :: bool
  tx_meta :: "(string list \<times> string list) option"
  tx_Account :: "string option"
  tx_Destination :: "string option"

datatype arg =
    NoArg
  | StrArg string
  | LedgerArg ledger_message
  | SubscribeArg subscribe_message
  | TxArg tx_message
  | ErrArg error
  | NodeArg "number option"

text \<open>
  The listeners the Remote registers with \<open>once\<close>: on a Request, the two closures of
  \<open>accountSeqCache\<close> (they capture the account key and the request) and the two
  wrappers that \<open>request.callback(fn, ...)\<close> puts around a caller's function \<open>fn\<close>; on
  itself, a caller's function and the replay of a queued request.
\<close>

datatype listener =
    AccountRootSuccess string nat
  | AccountRootError string nat
  | CallbackSuccess nat
  | CallbackError nat
  | UserFunction nat
  | RequestAgain nat

text \<open>What a handler does to the outside, in order.\<close>

datatype effect =
    Emit string arg
  | Once string listener
  | AccountNotify string tx_message
  | BookNotify string tx_message
  | RequestEmit nat string arg
  | ServerRequest nat nat
  | ServerDisconnect nat
  | Callback nat arg

record server =
  s_connected :: bool
  s_score :: int
  s_fee :: int
  s_primary :: bool

record account_info =
  seq :: "number option"
  caching_seq_request :: "nat option"

text \<open>
  Modelled from the spec: the Request collaborator (\<open>request.js\<close> is not among the
  sources). A Request has a command name, a message payload, of which
  \<open>account_root\<close> and the ledger selector are kept, the server it is pinned to
  (\<open>request.server\<close>: \<open>undefined\<close>, \<open>null\<close> or a server) and its one-time listeners in
  the order of their registration.
\<close>

datatype server_ref = ServerUndefined | ServerNull | ServerRef nat

record request =
  req_command :: string
  req_account_root :: "string option"
  req_ledger :: jsval
  req_server :: server_ref
  req_once :: "(string \<times> listener) list"


text \<open>
  The Remote. A private field \<open>_x\<close> of the source is \<open>r_x\<close> here, a private field
  \<open>_x\<close> of a Server is \<open>s_x\<close>. Server objects are shared between \<open>_servers\<close> and
  \<open>_primary_server\<close>, so they live in a store \<open>server_objs\<close> and are referred to by
  address; so do the Request objects, in \<open>request_objs\<close>, where \<open>next_request\<close> is the
  address the next \<open>new Request\<close> gets. \<open>r_accounts\<close> and \<open>r_books\<close>
  are the keys under which \<open>_accounts\<close> and \<open>_books\<close> hold an object with a \<open>notify\<close>
  method. \<open>effects\<close> is the trace of what the handlers did to the outside.
\<close>

record remote =
  trusted :: bool
  state :: string
  r_server_fatal :: bool
  local_sequence :: bool
  local_fee :: bool
  local_signing :: bool
  canonical_signing :: bool
  fee_cushion :: number
  max_fee :: number
  r_ledger_current_index :: "number option"
  r_ledger_hash :: "string option"
  r_ledger_time :: "number option"
  r_stand_alone :: "bool option"
  r_testnet :: "bool option"
  r_transaction_subs :: int
  r_connection_count :: int
  r_connected :: bool
  r_online_state :: "string option"
  r_connection_offset :: number
  r_submission_timeout :: number
  r_received_tx :: "string list"
  r_servers :: "nat list"
  server_objs :: "nat \<rightharpoonup> server"
  r_primary_server :: "nat option"
  request_objs :: "nat \<rightharpoonup> request"
  next_request :: nat
  accounts :: "string \<rightharpoonup> account_info"
  r_accounts :: "string set"
  r_books :: "string set"
  effects :: "effect list"

section \<open>The constructor\<close>

text \<open>
  The options the constructor reads before and in its type checks, each as the raw value
  the caller passed (\<open>Undefined\<close> when absent).
\<close>

record opts =
  opt_trusted :: jsval
  opt_local_sequence :: jsval
  opt_local_fee :: jsval
  opt_local_signing :: jsval
  opt_canonical_signing :: jsval
  opt_fee_cushion :: jsval
  opt_max_fee :: jsval
  opt_connection_offset :: jsval
  opt_submission_timeout :: jsval
  opt_ping :: jsval
  opt_storage :: jsval

text \<open>\<open>(typeof v === 'boolean') ? v : d\<close> and \<open>(typeof v === 'number') ? v : d\<close>.\<close>

fun boolean_or :: "jsval \<Rightarrow> bool \<Rightarrow> bool" where
  "boolean_or (Bool b) d = b"
| "boolean_or v d = d"

fun number_or :: "jsval \<Rightarrow> number \<Rightarrow> number" where
  "number_or (Number n) d = n"
| "number_or v d = d"

text \<open>
  The fields as the constructor sets them, lines 77 to 139 of \<open>remote.js\<close>. Every one of
  them has the type its check asks for, whatever the options are.
\<close>

definition Remote_fields :: "opts \<Rightarrow> remote" where
  "Remote_fields cfg =
     (let ls = boolean_or (opt_local_signing cfg) True in
      \<lparr> trusted = Boolean (opt_trusted cfg),
        state = ''offline'',
        r_server_fatal = False,
        local_sequence = (if ls then True else Boolean (opt_local_sequence cfg)),
        local_fee = (if ls then True else boolean_or (opt_local_fee cfg) True),
        local_signing = ls,
        canonical_signing = boolean_or (opt_canonical_signing cfg) True,
        fee_cushion = number_or (opt_fee_cushion cfg) (Fin (12 / 10)),
        max_fee = number_or (opt_max_fee cfg) PosInf,
        r_ledger_current_index = None,
        r_ledger_hash = None,
        r_ledger_time = None,
        r_stand_alone = None,
        r_testnet = None,
        r_transaction_subs = 0,
        r_connection_count = 0,
        r_connected = False,
        r_online_state = None,
        r_connection_offset = num_times (Fin 1000) (number_or (opt_connection_offset cfg) (Fin 0)),
        r_submission_timeout = num_times (Fin 1000) (number_or (opt_submission_timeout cfg) (Fin 10)),
        r_received_tx = [],
        r_servers = [],
        server_objs = Map.empty,
        r_primary_server = None,
        request_objs = Map.empty,
        next_request = 0,
        accounts = Map.empty,
        r_accounts = {},
        r_books = {},
        effects = [] \<rparr>)"

text \<open>
  The type checks, lines 141 to 175, in the source's order. The first seven test the
  fields just computed (their types are fixed by the datatype of the field, so the tests
  are written on the field's type: a \<open>number\<close> field is a number, a \<open>bool\<close> field a
  boolean); the last two test the raw options. What follows the checks (servers,
  listener limits, the storage and ping hooks) is not modelled: the options record has no
  \<open>servers\<close> and no \<open>max_listeners\<close>.
\<close>

definition Remote :: "opts \<Rightarrow> error + remote" where
  \<open>Remote cfg =
     (let this = Remote_fields cfg in
      if typeof (Number (r_connection_offset this)) \<noteq> ''number'' then
        Inl (TypeError ''Remote "connection_offset" configuration is not a Number'')
      else if typeof (Number (r_submission_timeout this)) \<noteq> ''number'' then
        Inl (TypeError ''Remote "submission_timeout" configuration is not a Number'')
      else if typeof (Number (max_fee this)) \<noteq> ''number'' then
        Inl (TypeError ''Remote "max_fee" configuration is not a Number'')
      else if typeof (Number (fee_cushion this)) \<noteq> ''number'' then
        Inl (TypeError ''Remote "fee_cushion" configuration is not a Number'')
      else if typeof (Bool (local_signing this)) \<noteq> ''boolean'' then
        Inl (TypeError ''Remote "local_signing" configuration is not a Boolean'')
      else if typeof (Bool (local_fee this)) \<noteq> ''boolean'' then
        Inl (TypeError ''Remote "local_fee" configuration is not a Boolean'')
      else if typeof (Bool (local_sequence this)) \<noteq> ''boolean'' then
        Inl (TypeError ''Remote "local_sequence" configuration is not a Boolean'')
      else if typeof (opt_ping cfg) \<noteq> ''undefined'' \<and> typeof (opt_ping cfg) \<noteq> ''number'' then
        Inl (TypeError ''Remote "ping" configuration is not a Number'')
      else if typeof (opt_storage cfg) \<noteq> ''undefined'' \<and> typeof (opt_storage cfg) \<noteq> ''object'' then
        Inl (TypeError ''Remote "storage" configuration is not an Object'')
      else Inr this)\<close>


section \<open>The connection state machine\<close>

text \<open>
  \<open>this.emit(name, arg)\<close>: the emission is recorded in the trace. What the listeners of
  the event go on to do is not part of the handler that emits.
\<close>

definition emit :: "string \<Rightarrow> arg \<Rightarrow> remote \<Rightarrow> remote" where
  "emit name a r = r\<lparr>effects := effects r @ [Emit name a]\<rparr>"

text \<open>\<open>Remote.prototype._setState\<close>.\<close>

definition setState :: "string \<Rightarrow> remote \<Rightarrow> remote" where
  "setState st r =
     (if state r \<noteq> st then
        (let r1 = emit ''state'' (StrArg st) (r\<lparr>state := st\<rparr>) in
         if st = ''online'' then
           emit ''connected'' NoArg (emit ''connect'' NoArg
             (r1\<lparr>r_online_state := Some ''open'', r_connected := True\<rparr>))
         else if st = ''offline'' then
           emit ''disconnected'' NoArg (emit ''disconnect'' NoArg
             (r1\<lparr>r_online_state := Some ''closed'', r_connected := False\<rparr>))
         else r1)
      else r)"

definition update_server :: "nat \<Rightarrow> (server \<Rightarrow> server) \<Rightarrow> remote \<Rightarrow> remote" where
  "update_server a f r = r\<lparr>server_objs := (server_objs r)(a := map_option f (server_objs r a))\<rparr>"

text \<open>\<open>Remote.prototype.setPrimaryServer\<close>, with the server given by its address.\<close>

definition setPrimaryServer :: "nat \<Rightarrow> remote \<Rightarrow> remote" where
  "setPrimaryServer a r =
     (let r1 = (case r_primary_server r of
                  None \<Rightarrow> r
                | Some p \<Rightarrow> update_server p (\<lambda>s. s\<lparr>s_primary := False\<rparr>) r) in
      update_server a (\<lambda>s. s\<lparr>s_primary := True\<rparr>) (r1\<lparr>r_primary_server := Some a\<rparr>))"

text \<open>
  The two listeners \<open>addServer\<close> puts on a new server: \<open>primary\<close> is the truthiness of
  \<open>opts.primary\<close> of that server's configuration, \<open>a\<close> the server's address.
\<close>

definition serverConnect :: "bool \<Rightarrow> nat \<Rightarrow> remote \<Rightarrow> remote" where
  "serverConnect primary a r =
     (let r1 = r\<lparr>r_connection_count := r_connection_count r + 1\<rparr>;
          r2 = (if primary then setPrimaryServer a r1 else r1);
          r3 = (if r_connection_count r2 = 1 then setState ''online'' r2 else r2)
      in if r_connection_count r3 = int (length (r_servers r3))
         then emit ''ready'' NoArg r3 else r3)"

definition serverDisconnect :: "remote \<Rightarrow> remote" where
  "serverDisconnect r =
     (let r1 = r\<lparr>r_connection_count := r_connection_count r - 1\<rparr>
      in if r_connection_count r1 = 0 then setState ''offline'' r1 else r1)"

text \<open>
  \<open>Remote.prototype.addServer\<close>: \<open>new Server(this, opts)\<close> is the collaborator's
  constructor, so the new server object \<open>s\<close> and the fresh address \<open>a\<close> are given.
\<close>

definition addServer :: "nat \<Rightarrow> server \<Rightarrow> remote \<Rightarrow> remote" where
  "addServer a s r = r\<lparr>server_objs := (server_objs r)(a \<mapsto> s), r_servers := r_servers r @ [a]\<rparr>"

text \<open>The events a server delivers to the listeners of \<open>addServer\<close>.\<close>

datatype server_event = ServerConnects bool nat | ServerDisconnects nat

fun on_server_event :: "server_event \<Rightarrow> remote \<Rightarrow> remote" where
  "on_server_event (ServerConnects primary a) r = serverConnect primary a r"
| "on_server_event (ServerDisconnects a) r = serverDisconnect r"

text \<open>The Remote after a sequence of such events.\<close>

fun on_server_events :: "server_event list \<Rightarrow> remote \<Rightarrow> remote" where
  "on_server_events [] r = r"
| "on_server_events (e # es) r = on_server_events es (on_server_event e r)"

text \<open>
  The invariant of the state machine: the state is one of the two names, it is
  \<open>online\<close> exactly when the count is positive, and \<open>_connected\<close> agrees with it.
\<close>

definition conn_inv :: "remote \<Rightarrow> bool" where
  "conn_inv r \<longleftrightarrow> (state r = ''online'' \<or> state r = ''offline'')
     \<and> (state r = ''online'') = (0 < r_connection_count r)
     \<and> r_connected r = (state r = ''online'')"

section \<open>The ledger tracker\<close>

text \<open>\<open>Remote.isValidLedgerData\<close>; the message is an object.\<close>

definition isValidLedgerData :: "ledger_message \<Rightarrow> bool" where
  "isValidLedgerData m \<longleftrightarrow>
       typeof (fee_base m) = ''number''
     \<and> typeof (fee_ref m) = ''number''
     \<and> typeof (fee_base m) = ''number''
     \<and> typeof (ledger_hash m) = ''string''
     \<and> typeof (ledger_index m) = ''number''
     \<and> typeof (ledger_time m) = ''number''
     \<and> typeof (reserve_base m) = ''number''
     \<and> typeof (reserve_inc m) = ''number''
     \<and> typeof (txn_count m) = ''number''"

text \<open>Reading a field whose type has been checked.\<close>

fun number_of :: "jsval \<Rightarrow> number option" where
  "number_of (Number n) = Some n"
| "number_of v = None"

fun string_of :: "jsval \<Rightarrow> string option" where
  "string_of (String s) = Some s"
| "string_of v = None"

text \<open>\<open>Remote.prototype._handleLedgerClosed\<close>.\<close>

definition handleLedgerClosed :: "ledger_message \<Rightarrow> remote \<Rightarrow> remote" where
  "handleLedgerClosed message r =
     (if \<not> isValidLedgerData message then r
      else
        (let ledgerAdvanced =
               num_ge (ToNumber (number_of (ledger_index message)))
                      (ToNumber (r_ledger_current_index r))
         in if ledgerAdvanced then
              emit ''ledger_closed'' (LedgerArg message)
                (r\<lparr>r_ledger_time := number_of (ledger_time message),
                   r_ledger_hash := string_of (ledger_hash message),
                   r_ledger_current_index :=
                     Some (num_add (ToNumber (number_of (ledger_index message))) (Fin 1))\<rparr>)
            else r))"

text \<open>
  \<open>serverSubscribed\<close>, the success listener of \<open>_serverPrepareSubscribe\<close>:
  \<open>message.ledger_hash && message.ledger_index\<close> is the truthiness of both.
\<close>

definition truthy_string :: "string option \<Rightarrow> bool" where
  "truthy_string s = (case s of None \<Rightarrow> False | Some x \<Rightarrow> Boolean (String x))"

definition truthy_number :: "number option \<Rightarrow> bool" where
  "truthy_number n = (case n of None \<Rightarrow> False | Some x \<Rightarrow> Boolean (Number x))"

definition serverSubscribed :: "subscribe_message \<Rightarrow> remote \<Rightarrow> remote" where
  "serverSubscribed message r =
     (let r1 = r\<lparr>r_stand_alone := Some (sub_stand_alone message = Some True),
                  r_testnet := Some (sub_testnet message = Some True)\<rparr>;
          r2 = (if truthy_string (sub_ledger_hash message) \<and> truthy_number (sub_ledger_index message)
                then emit ''ledger_closed'' (SubscribeArg message)
                       (r1\<lparr>r_ledger_time := sub_ledger_time message,
                           r_ledger_hash := sub_ledger_hash message,
                           r_ledger_current_index :=
                             Some (num_add (ToNumber (sub_ledger_index message)) (Fin 1))\<rparr>)
                else r1)
      in emit ''subscribed'' NoArg r2)"

text \<open>The inbound messages that reach the ledger tracker, and a run of them.\<close>

datatype ledger_input = LedgerClosed ledger_message | Subscribed subscribe_message

fun on_ledger_input :: "ledger_input \<Rightarrow> remote \<Rightarrow> remote" where
  "on_ledger_input (LedgerClosed m) r = handleLedgerClosed m r"
| "on_ledger_input (Subscribed m) r = serverSubscribed m r"

fun on_ledger_inputs :: "ledger_input list \<Rightarrow> remote \<Rightarrow> remote" where
  "on_ledger_inputs [] r = r"
| "on_ledger_inputs (i # is) r = on_ledger_inputs is (on_ledger_input i r)"

section \<open>The account sequence cache\<close>

text \<open>
  \<open>UInt160.json_rewrite\<close> belongs to the value codec and is a parameter \<open>json_rewrite\<close>.
  \<open>Remote.prototype.getAccountSequence\<close> returns \<open>undefined\<close> (\<open>None\<close>) or the
  sequence; \<open>advance.toUpperCase()\<close> raises a TypeError when \<open>advance\<close> is not a string
  (the wording of the message is the engine's).
\<close>

definition getAccountSequence ::
  "(string \<Rightarrow> string) \<Rightarrow> string \<Rightarrow> jsval \<Rightarrow> remote \<Rightarrow> error + (number option \<times> remote)" where
  "getAccountSequence json_rewrite account advance r =
     (let account = json_rewrite account in
      case accounts r account of
        None \<Rightarrow> Inr (None, r)
      | Some accountInfo \<Rightarrow>
          (case advance of
             String a \<Rightarrow>
               (let sq = seq accountInfo;
                    change = (if toUpperCase a = ''ADVANCE'' then Fin 1
                              else if toUpperCase a = ''REWIND'' then Fin (- 1)
                              else Fin 0)
                in Inr (sq, r\<lparr>accounts := (accounts r)
                          (account \<mapsto> accountInfo\<lparr>seq := Some (num_add (ToNumber sq) change)\<rparr>)\<rparr>))
           | Undefined \<Rightarrow> Inl (TypeError ''Cannot read property toUpperCase of undefined'')
           | Null \<Rightarrow> Inl (TypeError ''Cannot read property toUpperCase of null'')
           | _ \<Rightarrow> Inl (TypeError ''advance.toUpperCase is not a function'')))"

text \<open>\<open>Remote.prototype.setAccountSeq\<close>.\<close>

definition setAccountSeq :: "(string \<Rightarrow> string) \<Rightarrow> string \<Rightarrow> number \<Rightarrow> remote \<Rightarrow> remote" where
  "setAccountSeq json_rewrite account sequence r =
     (let account = json_rewrite account;
          accountInfo = (case accounts r account of
                           None \<Rightarrow> \<lparr>seq = None, caching_seq_request = None\<rparr>
                         | Some i \<Rightarrow> i)
      in r\<lparr>accounts := (accounts r)(account \<mapsto> accountInfo\<lparr>seq := Some sequence\<rparr>)\<rparr>)"


section \<open>Transaction de-duplication and fan-out\<close>

text \<open>
  Modelled from the spec: the DedupCache is an \<open>lru-cache\<close> with \<open>max: 100\<close>, a
  package outside the sources: a bounded set of keys with least-recently-used eviction.
  The keys are kept most recent first; \<open>get\<close> of a present key makes it the most recent,
  \<open>set\<close> puts the key in front and drops what exceeds the capacity. Every stored value is
  \<open>true\<close>, so \<open>get\<close> is truthy exactly for a present key.
\<close>

definition lru_max :: nat where
  "lru_max = 100"

definition lru_get :: "string \<Rightarrow> string list \<Rightarrow> bool \<times> string list" where
  "lru_get k c = (if k \<in> set c then (True, k # removeAll k c) else (False, c))"

definition lru_set :: "string \<Rightarrow> string list \<Rightarrow> string list" where
  "lru_set k c = take lru_max (k # removeAll k c)"

text \<open>
  The local function \<open>notify\<close> of \<open>_handleTransaction\<close>, bound to \<open>_accounts\<close> or to
  \<open>_books\<close>: the object under key \<open>el\<close>, if there is one with a \<open>notify\<close> method, is
  notified.
\<close>

definition notify_account :: "tx_message \<Rightarrow> string \<Rightarrow> remote \<Rightarrow> remote" where
  "notify_account message el r =
     (if el \<in> r_accounts r then r\<lparr>effects := effects r @ [AccountNotify el message]\<rparr> else r)"

definition notify_book :: "tx_message \<Rightarrow> string \<Rightarrow> remote \<Rightarrow> remote" where
  "notify_book message el r =
     (if el \<in> r_books r then r\<lparr>effects := effects r @ [BookNotify el message]\<rparr> else r)"

text \<open>
  The keys \<open>message.transaction[prop]\<close> for \<open>prop\<close> in \<open>['Account', 'Destination']\<close>;
  an absent field gives no key that holds an object.
\<close>

definition direct_accounts :: "tx_message \<Rightarrow> string list" where
  "direct_accounts message =
     (case tx_Account message of None \<Rightarrow> [] | Some a \<Rightarrow> [a]) @
     (case tx_Destination message of None \<Rightarrow> [] | Some d \<Rightarrow> [d])"

text \<open>\<open>Remote.prototype._handleTransaction\<close>.\<close>

definition handleTransaction :: "tx_message \<Rightarrow> remote \<Rightarrow> remote" where
  "handleTransaction message r =
     (let transactionHash = tx_hash message;
          (hit, cache) = lru_get transactionHash (r_received_tx r);
          r0 = r\<lparr>r_received_tx := cache\<rparr>
      in if hit then r0
         else
           (let r1 = (if tx_validated message
                      then r0\<lparr>r_received_tx := lru_set transactionHash (r_received_tx r0)\<rparr>
                      else r0);
                r2 = (case tx_meta message of
                        Some (affectedAccounts, affectedBooks) \<Rightarrow>
                          fold (notify_book message) affectedBooks
                            (fold (notify_account message) affectedAccounts r1)
                      | None \<Rightarrow> fold (notify_account message) (direct_accounts message) r1)
            in emit ''transaction_all'' (TxArg message) (emit ''transaction'' (TxArg message) r2)))"

fun handleTransactions :: "tx_message list \<Rightarrow> remote \<Rightarrow> remote" where
  "handleTransactions [] r = r"
| "handleTransactions (m # ms) r = handleTransactions ms (handleTransaction m r)"

text \<open>
  The fan-out of a message as the specification words it: the registered Account and
  OrderBook objects among the affected ones are notified (with no metadata, the
  registered Accounts among source and destination), then \<open>transaction\<close> and
  \<open>transaction_all\<close> are emitted. \<open>handleTransaction\<close> is compared with it below.
\<close>

definition notifications :: "tx_message \<Rightarrow> remote \<Rightarrow> effect list" where
  "notifications m r =
     (case tx_meta m of
        Some (affectedAccounts, affectedBooks) \<Rightarrow>
          map (\<lambda>a. AccountNotify a m) (filter (\<lambda>a. a \<in> r_accounts r) affectedAccounts) @
          map (\<lambda>b. BookNotify b m) (filter (\<lambda>b. b \<in> r_books r) affectedBooks)
      | None \<Rightarrow>
          map (\<lambda>a. AccountNotify a m) (filter (\<lambda>a. a \<in> r_accounts r) (direct_accounts m)))"

definition fan_out :: "tx_message \<Rightarrow> remote \<Rightarrow> effect list" where
  "fan_out m r = notifications m r @ [Emit ''transaction'' (TxArg m), Emit ''transaction_all'' (TxArg m)]"

section \<open>Server selection and the request router\<close>

text \<open>
  \<open>sortByScore\<close> compares \<open>_score + _fee\<close>; \<open>Array.prototype.sort\<close> is modelled as a
  stable sort on that key (the order of equal keys is the engine's).
\<close>

definition sortByScore_key :: "(nat \<rightharpoonup> server) \<Rightarrow> nat \<Rightarrow> int" where
  "sortByScore_key h a = (case h a of None \<Rightarrow> 0 | Some s \<Rightarrow> s_score s + s_fee s)"

text \<open>
  The loop of \<open>getServer\<close>: it starts at index 0 and reads \<open>server._connected\<close> before any
  test of the index, so past the last entry \<open>server\<close> is \<open>undefined\<close> and the read raises
  a TypeError. When it returns, it returns a server (\<open>Some\<close>).
\<close>

fun first_connected :: "(nat \<rightharpoonup> server) \<Rightarrow> nat list \<Rightarrow> error + nat option" where
  "first_connected h [] = Inl (TypeError ''Cannot read property _connected of undefined'')"
| "first_connected h (a # as) =
     (case h a of
        None \<Rightarrow> Inl (TypeError ''Cannot read property _connected of undefined'')
      | Some s \<Rightarrow> if s_connected s then Inr (Some a) else first_connected h as)"

definition primary_connected :: "remote \<Rightarrow> bool" where
  "primary_connected r =
     (case r_primary_server r of
        None \<Rightarrow> False
      | Some p \<Rightarrow> (case server_objs r p of None \<Rightarrow> False | Some s \<Rightarrow> s_connected s))"

text \<open>\<open>server._connected\<close> of the server at an address.\<close>

definition is_connected :: "(nat \<rightharpoonup> server) \<Rightarrow> nat \<Rightarrow> bool" where
  "is_connected h a = (case h a of None \<Rightarrow> False | Some s \<Rightarrow> s_connected s)"

text \<open>
  \<open>Remote.prototype.getServer\<close>: the result is the server's address, \<open>None\<close> standing for
  a falsy result; the sort reorders \<open>_servers\<close> in place, also when the loop raises.
\<close>

definition getServer :: "remote \<Rightarrow> (error + nat option) \<times> remote" where
  "getServer r =
     (if primary_connected r then (Inr (r_primary_server r), r)
      else
        (let r1 = r\<lparr>r_servers := sort_key (sortByScore_key (server_objs r)) (r_servers r)\<rparr>
         in (first_connected (server_objs r1) (r_servers r1), r1)))"

text \<open>
  The argument of \<open>Remote.prototype.request\<close>: a command name, a Request (by address) or
  anything else. \<open>this\<close> is the property table of the Remote (own and inherited
  properties, \<open>Undefined\<close> when absent) and \<open>apply f args\<close> the call of the function
  value \<open>Function f\<close> on the remaining arguments.
\<close>

datatype request_arg = Command string | RequestObject nat | NotARequest

definition request_emit_error :: "nat \<Rightarrow> string \<Rightarrow> remote \<Rightarrow> remote" where
  "request_emit_error q msg r = r\<lparr>effects := effects r @ [RequestEmit q ''error'' (ErrArg (Error msg))]\<rparr>"

definition request ::
  "(string \<Rightarrow> jsval) \<Rightarrow> (nat \<Rightarrow> jsval list \<Rightarrow> 'b) \<Rightarrow> request_arg \<Rightarrow> jsval list \<Rightarrow> remote
     \<Rightarrow> (error + 'b option) \<times> remote" where
  "request this apply req args r =
     (case req of
        Command name \<Rightarrow>
          (let name = (if \<not> starts_with_request name then ''request_'' @ name else name) in
           case this name of
             Function f \<Rightarrow> (Inr (Some (apply f args)), r)
           | _ \<Rightarrow> (Inl (Error (''Command does not exist: '' @ name)), r))
      | NotARequest \<Rightarrow> (Inl (Error ''Argument is not a Request''), r)
      | RequestObject q \<Rightarrow>
          (if r_servers r = [] then (Inr None, request_emit_error q ''No servers available'' r)
           else if \<not> r_connected r then
             (Inr None, r\<lparr>effects := effects r @ [Once ''connect'' (RequestAgain q)]\<rparr>)
           else
             (case map_option req_server (request_objs r q) of
                Some ServerNull \<Rightarrow> (Inr None, request_emit_error q ''Server does not exist'' r)
              | Some (ServerRef a) \<Rightarrow> (Inr None, r\<lparr>effects := effects r @ [ServerRequest a q]\<rparr>)
              | _ \<Rightarrow>
                  (case getServer r of
                     (Inl e, r1) \<Rightarrow> (Inl e, r1)
                   | (Inr (Some a), r1) \<Rightarrow> (Inr None, r1\<lparr>effects := effects r1 @ [ServerRequest a q]\<rparr>)
                   | (Inr None, r1) \<Rightarrow> (Inr None, request_emit_error q ''No servers available'' r1)))))"

text \<open>
  \<open>feeTx\<close>, \<open>feeTxUnit\<close> and \<open>reserve\<close>: the server's own \<open>_feeTx\<close>, \<open>_feeTxUnit\<close> and
  \<open>_reserve\<close> are parameters.
\<close>

definition feeTx :: "(nat \<Rightarrow> 'u \<Rightarrow> 'b) \<Rightarrow> 'u \<Rightarrow> remote \<Rightarrow> (error + 'b) \<times> remote" where
  "feeTx server_feeTx units r =
     (case getServer r of
        (Inl e, r1) \<Rightarrow> (Inl e, r1)
      | (Inr None, r1) \<Rightarrow> (Inl (Error ''No connected servers''), r1)
      | (Inr (Some a), r1) \<Rightarrow> (Inr (server_feeTx a units), r1))"

definition feeTxUnit :: "(nat \<Rightarrow> 'b) \<Rightarrow> remote \<Rightarrow> (error + 'b) \<times> remote" where
  "feeTxUnit server_feeTxUnit r =
     (case getServer r of
        (Inl e, r1) \<Rightarrow> (Inl e, r1)
      | (Inr None, r1) \<Rightarrow> (Inl (Error ''No connected servers''), r1)
      | (Inr (Some a), r1) \<Rightarrow> (Inr (server_feeTxUnit a), r1))"

definition reserve :: "(nat \<Rightarrow> 'u \<Rightarrow> 'b) \<Rightarrow> 'u \<Rightarrow> remote \<Rightarrow> (error + 'b) \<times> remote" where
  "reserve server_reserve owner_count r =
     (case getServer r of
        (Inl e, r1) \<Rightarrow> (Inl e, r1)
      | (Inr None, r1) \<Rightarrow> (Inl (Error ''No connected servers''), r1)
      | (Inr (Some a), r1) \<Rightarrow> (Inr (server_reserve a owner_count), r1))"


section \<open>Refreshing an account's sequence\<close>

definition update_request :: "nat \<Rightarrow> (request \<Rightarrow> request) \<Rightarrow> remote \<Rightarrow> remote" where
  "update_request q f r = r\<lparr>request_objs := (request_objs r)(q := map_option f (request_objs r q))\<rparr>"

definition update_account :: "string \<Rightarrow> (account_info \<Rightarrow> account_info) \<Rightarrow> remote \<Rightarrow> remote" where
  "update_account k f r = r\<lparr>accounts := (accounts r)(k := map_option f (accounts r k))\<rparr>"

text \<open>\<open>new Request(this, command)\<close>.\<close>

definition new_request :: "string \<Rightarrow> remote \<Rightarrow> nat \<times> remote" where
  "new_request command r =
     (let q = next_request r in
      (q, r\<lparr>request_objs := (request_objs r)
               (q \<mapsto> \<lparr>req_command = command, req_account_root = None, req_ledger = Undefined,
                       req_server = ServerUndefined, req_once = []\<rparr>),
             next_request := Suc q\<rparr>))"

text \<open>\<open>request.once(event, listener)\<close>.\<close>

definition request_once :: "nat \<Rightarrow> string \<Rightarrow> listener \<Rightarrow> remote \<Rightarrow> remote" where
  "request_once q e l r = update_request q (\<lambda>x. x\<lparr>req_once := req_once x @ [(e, l)]\<rparr>) r"

text \<open>
  Modelled from the spec: \<open>request.callback(fn, successEventName, errorEventName)\<close>
  registers the caller's function for the two events; it registers nothing when \<open>fn\<close>
  is not a function (\<open>None\<close>).
\<close>

definition request_callback :: "nat \<Rightarrow> nat option \<Rightarrow> string \<Rightarrow> string \<Rightarrow> remote \<Rightarrow> remote" where
  "request_callback q callback successEvent errorEvent r =
     (case callback of
        None \<Rightarrow> r
      | Some fn \<Rightarrow>
          request_once q errorEvent (CallbackError fn)
            (request_once q successEvent (CallbackSuccess fn) r))"

text \<open>
  \<open>Remote.prototype.accountSeqCache\<close> with the account given as a string: it returns
  the request. \<open>requestLedgerEntry('account_root')\<close> makes a \<open>ledger_entry\<close> request.
\<close>

definition accountSeqCache :: "string \<Rightarrow> jsval \<Rightarrow> nat option \<Rightarrow> remote \<Rightarrow> nat \<times> remote" where
  "accountSeqCache account ledger callback r =
     (let r1 = (if accounts r account = None
                then r\<lparr>accounts := (accounts r)(account \<mapsto> \<lparr>seq = None, caching_seq_request = None\<rparr>)\<rparr>
                else r);
          (request, r2) =
            (case Option.bind (accounts r1 account) caching_seq_request of
               Some q \<Rightarrow> (q, r1)
             | None \<Rightarrow>
                 (let (q, ra) = new_request ''ledger_entry'' r1;
                      rb = update_request q (\<lambda>x. x\<lparr>req_account_root := Some account, req_ledger := ledger\<rparr>) ra;
                      rc = request_once q ''success'' (AccountRootSuccess account q) rb;
                      rd = request_once q ''error'' (AccountRootError account q) rc
                  in (q, update_account account (\<lambda>i. i\<lparr>caching_seq_request := Some q\<rparr>) rd)))
      in (request, request_callback request callback
                     ''success_account_seq_cache'' ''error_account_seq_cache'' r2))"

text \<open>
  Modelled from the spec: a Request emits \<open>success\<close> or \<open>error\<close> with the raw response.
  Emitting an event takes the one-time listeners registered for it off the request and
  runs them in the order of their registration. \<open>emit_callbacks\<close> is the emission from
  inside \<open>accountRootSuccess\<close> and \<open>accountRootError\<close>, on the two events that only
  callers' functions listen to.
\<close>

definition take_once :: "nat \<Rightarrow> string \<Rightarrow> remote \<Rightarrow> listener list \<times> remote" where
  "take_once q e r =
     (case request_objs r q of
        None \<Rightarrow> ([], r)
      | Some x \<Rightarrow>
          (map snd (filter (\<lambda>(n, l). n = e) (req_once x)),
           update_request q (\<lambda>x. x\<lparr>req_once := filter (\<lambda>(n, l). n \<noteq> e) (req_once x)\<rparr>) r))"

fun run_callback :: "arg \<Rightarrow> listener \<Rightarrow> remote \<Rightarrow> remote" where
  "run_callback a (CallbackSuccess fn) r = r\<lparr>effects := effects r @ [Callback fn a]\<rparr>"
| "run_callback a (CallbackError fn) r = r\<lparr>effects := effects r @ [Callback fn a]\<rparr>"
| "run_callback a l r = r"

definition emit_callbacks :: "nat \<Rightarrow> string \<Rightarrow> arg \<Rightarrow> remote \<Rightarrow> remote" where
  "emit_callbacks q e a r = (let (ls, r1) = take_once q e r in fold (run_callback a) ls r1)"

text \<open>\<open>message.node.Sequence\<close> of a ledger-entry response.\<close>

fun node_Sequence :: "arg \<Rightarrow> number option" where
  "node_Sequence (NodeArg sq) = sq"
| "node_Sequence a = None"

text \<open>
  The closures \<open>accountRootSuccess\<close> and \<open>accountRootError\<close> of \<open>accountSeqCache\<close>:
  \<open>delete account_info.caching_seq_request\<close>, the sequence on success, then the
  emission to the attached callers.
\<close>

fun run_listener :: "arg \<Rightarrow> listener \<Rightarrow> remote \<Rightarrow> remote" where
  "run_listener a (AccountRootSuccess account q) r =
     emit_callbacks q ''success_account_seq_cache'' a
       (update_account account
          (\<lambda>i. i\<lparr>caching_seq_request := None, seq := node_Sequence a\<rparr>) r)"
| "run_listener a (AccountRootError account q) r =
     emit_callbacks q ''error_account_seq_cache'' a
       (update_account account (\<lambda>i. i\<lparr>caching_seq_request := None\<rparr>) r)"
| "run_listener a l r = run_callback a l r"

definition request_emit :: "nat \<Rightarrow> string \<Rightarrow> arg \<Rightarrow> remote \<Rightarrow> remote" where
  "request_emit q e a r = (let (ls, r1) = take_once q e r in fold (run_listener a) ls r1)"

text \<open>
  What is observed of an account's cache entry: the request in flight, if any, and the
  cached sequence.
\<close>

definition in_flight :: "remote \<Rightarrow> string \<Rightarrow> nat option" where
  "in_flight r account = Option.bind (accounts r account) caching_seq_request"

definition cached_seq :: "remote \<Rightarrow> string \<Rightarrow> number option" where
  "cached_seq r account = Option.bind (accounts r account) seq"

text \<open>
  The one-time listeners on the request \<open>q\<close> of account \<open>A\<close> once two callers with the
  functions \<open>cb1\<close> and \<open>cb2\<close> are attached.
\<close>

definition two_callers :: "string \<Rightarrow> nat \<Rightarrow> nat \<Rightarrow> nat \<Rightarrow> (string \<times> listener) list" where
  "two_callers A q cb1 cb2 =
     [(''success'', AccountRootSuccess A q), (''error'', AccountRootError A q),
      (''success_account_seq_cache'', CallbackSuccess cb1),
      (''error_account_seq_cache'', CallbackError cb1),
      (''success_account_seq_cache'', CallbackSuccess cb2),
      (''error_account_seq_cache'', CallbackError cb2)]"

section \<open>Disconnecting\<close>

text \<open>
  The properties \<open>remote.js\<close> puts on \<open>Remote.prototype\<close>, each name with the number of
  the function it holds (names assigned the same function share the number). This is
  not the whole property table of a Remote: the source itself looks up under_scored names
  that it does not assign (\<open>request_\<close> names, \<open>_set_state\<close>), so \<open>request\<close> and
  \<open>disconnect\<close> take the table as a parameter \<open>this\<close>.
\<close>

definition Remote_prototype_table :: "(string \<times> nat) list" where
  "Remote_prototype_table =
   [(''_setState'', 0), (''setServerFatal'', 1), (''setSecret'', 2),
    (''getPendingTransactions'', 3), (''addServer'', 4), (''connect'', 5),
    (''disconnect'', 6), (''_handleMessage'', 7), (''_handleLedgerClosed'', 8),
    (''_handleServerStatus'', 9), (''_handleTransaction'', 10), (''_handlePathFind'', 11),
    (''getLedgerHash'', 12), (''_setPrimaryServer'', 13), (''setPrimaryServer'', 13),
    (''_getServer'', 14), (''getServer'', 14), (''request'', 15), (''ping'', 16),
    (''requestPing'', 16), (''requestServerInfo'', 17), (''requestLedger'', 18),
    (''requestLedgerClosed'', 19), (''requestLedgerHash'', 19),
    (''requestLedgerHeader'', 20), (''requestLedgerCurrent'', 21),
    (''requestLedgerEntry'', 22), (''requestSubscribe'', 23), (''requestUnsubscribe'', 24),
    (''requestTransactionEntry'', 25), (''requestTransaction'', 26), (''requestTx'', 26),
    (''requestAccountInfo'', 27), (''requestAccountCurrencies'', 28),
    (''requestAccountLines'', 29), (''requestAccountOffers'', 30),
    (''requestAccountTransactions'', 31), (''requestAccountTx'', 31),
    (''requestTxHistory'', 32), (''requestBookOffers'', 33),
    (''requestWalletAccounts'', 34), (''requestSign'', 35), (''requestSubmit'', 36),
    (''_serverPrepareSubscribe'', 37), (''ledgerAccept'', 38),
    (''requestLedgerAccept'', 38), (''requestAccountBalance'', 39),
    (''requestAccountFlags'', 40), (''requestOwnerCount'', 41), (''getAccount'', 42),
    (''addAccount'', 43), (''account'', 44), (''findAccount'', 44), (''pathFind'', 45),
    (''createPathFind'', 45), (''book'', 46), (''createOrderBook'', 46),
    (''accountSeq'', 47), (''getAccountSequence'', 47), (''setAccountSeq'', 48),
    (''accountSeqCache'', 49), (''dirtyAccountRoot'', 50), (''requestStellarBalance'', 51),
    (''requestStellarPathFind'', 52), (''requestPathFindCreate'', 53),
    (''requestPathFindClose'', 54), (''requestUnlList'', 55), (''requestUnlAdd'', 56),
    (''requestUnlDelete'', 57), (''requestPeers'', 58), (''requestConnect'', 59),
    (''transaction'', 60), (''createTransaction'', 60), (''feeTx'', 61),
    (''feeTxUnit'', 62), (''reserve'', 63)]"

definition Remote_prototype :: "string \<Rightarrow> jsval" where
  "Remote_prototype name =
     (case map_of Remote_prototype_table name of None \<Rightarrow> Undefined | Some f \<Rightarrow> Function f)"

text \<open>
  \<open>Remote.prototype.disconnect\<close>. \<open>this\<close> is the property table of the Remote,
  \<open>call f args\<close> the call of the function value \<open>Function f\<close> on the Remote,
  \<open>server_disconnect a\<close> what \<open>server.disconnect()\<close> of the server at \<open>a\<close> does to the
  Remote (its \<open>disconnect\<close> listener may run), \<open>callback\<close> the argument when it is a
  function. A raised error leaves the Remote as it is at the raise.
\<close>

definition disconnect ::
  "(string \<Rightarrow> jsval) \<Rightarrow> (nat \<Rightarrow> jsval list \<Rightarrow> remote \<Rightarrow> remote) \<Rightarrow> (nat \<Rightarrow> remote \<Rightarrow> remote)
     \<Rightarrow> nat option \<Rightarrow> remote \<Rightarrow> (error + unit) \<times> remote" where
  "disconnect this call server_disconnect callback r =
     (if r_servers r = [] then (Inl (Error ''No servers available, not disconnecting''), r)
      else
        (let r1 = (case callback of
                     None \<Rightarrow> r
                   | Some fn \<Rightarrow> r\<lparr>effects := effects r @ [Once ''disconnect'' (UserFunction fn)]\<rparr>);
             r2 = fold (\<lambda>a r. server_disconnect a (r\<lparr>effects := effects r @ [ServerDisconnect a]\<rparr>))
                       (r_servers r1) r1
         in case this ''_set_state'' of
              Function f \<Rightarrow> (Inr (), call f [String ''offline''] r2)
            | _ \<Rightarrow> (Inl (TypeError ''this._set_state is not a function''), r2)))"

text \<open>The options of \<open>new Remote()\<close>: every option absent.\<close>

definition no_opts :: opts where
  "no_opts =
     \<lparr> opt_trusted = Undefined, opt_local_sequence = Undefined, opt_local_fee = Undefined,
       opt_local_signing = Undefined, opt_canonical_signing = Undefined,
       opt_fee_cushion = Undefined, opt_max_fee = Undefined, opt_connection_offset = Undefined,
       opt_submission_timeout = Undefined, opt_ping = Undefined, opt_storage = Undefined \<rparr>"


text \<open>A server as \<open>new Server\<close> leaves it: not connected, not primary.\<close>

definition srv0 :: server where
  "srv0 = \<lparr>s_connected = False, s_score = 0, s_fee = 10, s_primary = False\<rparr>"

text \<open>
  A well-formed \<open>ledgerClosed\<close> message and a subscribe acknowledgment that carries a
  ledger, each for a given ledger index.
\<close>

definition ledger_msg :: "rat \<Rightarrow> ledger_message" where
  "ledger_msg i =
     \<lparr> fee_base = Number (Fin 10), fee_ref = Number (Fin 10), ledger_hash = String ''ABCD'',
       ledger_index = Number (Fin i), ledger_time = Number (Fin 1000),
       reserve_base = Number (Fin 50), reserve_inc = Number (Fin 10), txn_count = Number (Fin 0) \<rparr>"

definition subscribe_msg :: "rat \<Rightarrow> subscribe_message" where
  "subscribe_msg i =
     \<lparr> sub_stand_alone = None, sub_testnet = None, sub_ledger_hash = Some ''ABCD'',
       sub_ledger_index = Some (Fin i), sub_ledger_time = Some (Fin 1000) \<rparr>"

text \<open>
  A proposed or validated transaction from \<open>alice\<close> to \<open>bob\<close> without metadata, and a
  fresh Remote that holds an Account object for \<open>alice\<close>.
\<close>

definition tx_msg :: "string \<Rightarrow> bool \<Rightarrow> tx_message" where
  "tx_msg h v = \<lparr> tx_hash = h, tx_validated = v, tx_meta = None,
                  tx_Account = Some ''alice'', tx_Destination = Some ''bob'' \<rparr>"

definition remote_with_account :: remote where
  "remote_with_account = (Remote_fields no_opts)\<lparr>r_accounts := {''alice''}\<rparr>"

text \<open>
  A Remote whose property \<open>request_ping\<close> holds the function of \<open>requestPing\<close>, besides
  what \<open>remote.js\<close> defines.
\<close>

definition with_request_ping :: "string \<Rightarrow> jsval" where
  "with_request_ping = Remote_prototype(''request_ping'' := Remote_prototype ''requestPing'')"

text \<open>A fresh Remote with one server, after that server has connected.\<close>

definition connected_remote :: remote where
  "connected_remote = on_server_events [ServerConnects False 0] (addServer 0 srv0 (Remote_fields no_opts))"

text \<open>
  A Remote whose property \<open>_set_state\<close> holds the function of \<open>_setState\<close>, besides what
  \<open>remote.js\<close> defines, and the call of a function value on the Remote as far as it is
  used below: function 0, \<open>_setState\<close>, on a string; the calls of the other functions
  are not modelled.
\<close>

definition with_set_state :: "string \<Rightarrow> jsval" where
  "with_set_state = Remote_prototype(''_set_state'' := Remote_prototype ''_setState'')"

fun call_Remote :: "nat \<Rightarrow> jsval list \<Rightarrow> remote \<Rightarrow> remote" where
  "call_Remote 0 [String st] r = setState st r"
| "call_Remote f args r = r"

section \<open>Properties of the constructor\<close>

lemma Remote_fields_sel [simp]:
  "state (Remote_fields cfg) = ''offline''"
  "r_ledger_current_index (Remote_fields cfg) = None"
  "r_ledger_hash (Remote_fields cfg) = None"
  "r_ledger_time (Remote_fields cfg) = None"
  "r_connection_count (Remote_fields cfg) = 0"
  "r_connected (Remote_fields cfg) = False"
  "r_received_tx (Remote_fields cfg) = []"
  "r_servers (Remote_fields cfg) = []"
  "r_primary_server (Remote_fields cfg) = None"
  "accounts (Remote_fields cfg) = Map.empty"
  "request_objs (Remote_fields cfg) = Map.empty"
  "next_request (Remote_fields cfg) = 0"
  "effects (Remote_fields cfg) = []"
  by (simp_all add: Remote_fields_def Let_def)

text \<open>
  The fields are computed before the checks and have the checked types by then, so of the
  nine checks only the two on the raw options \<open>ping\<close> and \<open>storage\<close> can raise.
\<close>

lemma Remote_checks:
  \<open>Remote cfg =
     (if typeof (opt_ping cfg) \<noteq> ''undefined'' \<and> typeof (opt_ping cfg) \<noteq> ''number'' then
        Inl (TypeError ''Remote "ping" configuration is not a Number'')
      else if typeof (opt_storage cfg) \<noteq> ''undefined'' \<and> typeof (opt_storage cfg) \<noteq> ''object'' then
        Inl (TypeError ''Remote "storage" configuration is not an Object'')
      else Inr (Remote_fields cfg))\<close>
  by (simp add: Remote_def Let_def)

lemma Remote_fields_trusted:
  "Remote_fields (cfg\<lparr>opt_trusted := v\<rparr>) = (Remote_fields cfg)\<lparr>trusted := Boolean v\<rparr>"
  by (simp add: Remote_fields_def Let_def)

lemma Remote_fields_canonical_signing:
  "Remote_fields (cfg\<lparr>opt_canonical_signing := w\<rparr>) =
     (Remote_fields cfg)\<lparr>canonical_signing := (case w of Bool b \<Rightarrow> b | _ \<Rightarrow> True)\<rparr>"
  by (cases w) (simp_all add: Remote_fields_def Let_def)

text \<open>
  C8, as stated, fails: a string for \<open>trusted\<close> and a number for \<open>canonical_signing\<close>
  do not make the constructor raise. \<open>trusted\<close> is coerced with \<open>Boolean()\<close> and a
  \<open>canonical_signing\<close> that is not a boolean is replaced by \<open>true\<close>; no check reads
  either of them.
\<close>

theorem Remote_wrong_type_counterexample:
  \<open>Remote (no_opts\<lparr>opt_trusted := String ''yes'', opt_canonical_signing := Number (Fin 5)\<rparr>)
     = Inr ((Remote_fields no_opts)\<lparr>trusted := True, canonical_signing := True\<rparr>)\<close>
  by (simp add: Remote_checks Remote_fields_trusted Remote_fields_canonical_signing)
     (simp add: no_opts_def Remote_fields_def)

text \<open>
  C8, amended. A \<open>ping\<close> option that is neither absent nor a number makes the
  constructor raise a TypeError, and so does, when \<open>ping\<close> passes, a \<open>storage\<close> option
  that is neither absent nor an object. The options \<open>trusted\<close> and
  \<open>canonical_signing\<close> never make it raise, whatever their type: they only determine
  the field of the same name, \<open>trusted\<close> by \<open>Boolean()\<close> and \<open>canonical_signing\<close> as the
  given boolean or else \<open>true\<close>.
\<close>

theorem Remote_type_checks:
  \<open>(typeof (opt_ping cfg) \<noteq> ''undefined'' \<and> typeof (opt_ping cfg) \<noteq> ''number'' \<longrightarrow>
      Remote cfg = Inl (TypeError ''Remote "ping" configuration is not a Number''))
 \<and> ((typeof (opt_ping cfg) = ''undefined'' \<or> typeof (opt_ping cfg) = ''number'')
      \<and> typeof (opt_storage cfg) \<noteq> ''undefined'' \<and> typeof (opt_storage cfg) \<noteq> ''object'' \<longrightarrow>
      Remote cfg = Inl (TypeError ''Remote "storage" configuration is not an Object''))
 \<and> Remote (cfg\<lparr>opt_trusted := v\<rparr>) = map_sum id (\<lambda>r. r\<lparr>trusted := Boolean v\<rparr>) (Remote cfg)
 \<and> Remote (cfg\<lparr>opt_canonical_signing := w\<rparr>) =
      map_sum id (\<lambda>r. r\<lparr>canonical_signing := (case w of Bool b \<Rightarrow> b | _ \<Rightarrow> True)\<rparr>) (Remote cfg)\<close>
  by (simp add: Remote_checks Remote_fields_trusted Remote_fields_canonical_signing)

theorem Remote_type_checks_witness:
  \<open>Remote (no_opts\<lparr>opt_ping := String ''5''\<rparr>)
     = Inl (TypeError ''Remote "ping" configuration is not a Number'')
   \<and> Remote (no_opts\<lparr>opt_ping := Number (Fin 5), opt_storage := String ''disk''\<rparr>)
     = Inl (TypeError ''Remote "storage" configuration is not an Object'')
   \<and> Remote (no_opts\<lparr>opt_trusted := Number (Fin 1)\<rparr>)
     = Inr ((Remote_fields no_opts)\<lparr>trusted := True\<rparr>)\<close>
proof -
  let ?c1 = "no_opts\<lparr>opt_ping := String ''5''\<rparr>"
  let ?c2 = "no_opts\<lparr>opt_ping := Number (Fin 5), opt_storage := String ''disk''\<rparr>"
  have h1: "typeof (opt_ping ?c1) \<noteq> ''undefined'' \<and> typeof (opt_ping ?c1) \<noteq> ''number''"
    by simp
  have h2: "(typeof (opt_ping ?c2) = ''undefined'' \<or> typeof (opt_ping ?c2) = ''number'')
      \<and> typeof (opt_storage ?c2) \<noteq> ''undefined'' \<and> typeof (opt_storage ?c2) \<noteq> ''object''"
    by simp
  have ok: "Remote no_opts = Inr (Remote_fields no_opts)"
    by (simp add: Remote_checks no_opts_def)
  from Remote_type_checks[of ?c1] h1
  have 1: \<open>Remote ?c1 = Inl (TypeError ''Remote "ping" configuration is not a Number'')\<close>
    by blast
  from Remote_type_checks[of ?c2] h2
  have 2: \<open>Remote ?c2 = Inl (TypeError ''Remote "storage" configuration is not an Object'')\<close>
    by blast
  from Remote_type_checks[of no_opts "Number (Fin 1)"]
  have 3: "Remote (no_opts\<lparr>opt_trusted := Number (Fin 1)\<rparr>)
     = map_sum id (\<lambda>r. r\<lparr>trusted := Boolean (Number (Fin 1))\<rparr>) (Remote no_opts)"
    by blast
  from 1 2 3 show ?thesis by (simp add: ok)
qed


text \<open>
  For the record: an option such as \<open>fee_cushion\<close> of another type is replaced by its
  default before its check runs.
\<close>

lemma Remote_fee_cushion_defaulted:
  "Remote (no_opts\<lparr>opt_fee_cushion := String ''high''\<rparr>) = Inr (Remote_fields no_opts)"
  by (simp add: Remote_checks) (simp add: no_opts_def Remote_fields_def)

section \<open>Properties of the connection state machine\<close>

lemma setPrimaryServer_frame [simp]:
  "state (setPrimaryServer a r) = state r"
  "r_connection_count (setPrimaryServer a r) = r_connection_count r"
  "effects (setPrimaryServer a r) = effects r"
  "r_servers (setPrimaryServer a r) = r_servers r"
  "r_connected (setPrimaryServer a r) = r_connected r"
  by (simp_all add: setPrimaryServer_def update_server_def Let_def split: option.splits)

lemma setState_same: "setState (state r) r = r"
  by (simp add: setState_def)

lemma setState_frame [simp]:
  "r_connection_count (setState st r) = r_connection_count r"
  "r_servers (setState st r) = r_servers r"
  by (simp_all add: setState_def emit_def Let_def)

lemma setState_online:
  "state r = ''offline'' \<Longrightarrow>
     state (setState ''online'' r) = ''online'' \<and> r_connected (setState ''online'' r)
   \<and> effects (setState ''online'' r) =
       effects r @ [Emit ''state'' (StrArg ''online''), Emit ''connect'' NoArg, Emit ''connected'' NoArg]"
  by (simp add: setState_def emit_def Let_def)

lemma setState_offline:
  "state r = ''online'' \<Longrightarrow>
     state (setState ''offline'' r) = ''offline'' \<and> \<not> r_connected (setState ''offline'' r)
   \<and> effects (setState ''offline'' r) =
       effects r @ [Emit ''state'' (StrArg ''offline''), Emit ''disconnect'' NoArg, Emit ''disconnected'' NoArg]"
  by (simp add: setState_def emit_def Let_def)

lemma serverConnect_count [simp]:
  "r_connection_count (serverConnect p a r) = r_connection_count r + 1"
  "r_servers (serverConnect p a r) = r_servers r"
  by (simp_all add: serverConnect_def Let_def emit_def)

lemma serverDisconnect_count [simp]:
  "r_connection_count (serverDisconnect r) = r_connection_count r - 1"
  "r_servers (serverDisconnect r) = r_servers r"
  by (simp_all add: serverDisconnect_def Let_def emit_def)

lemma serverConnect_first:
  assumes "conn_inv r" "r_connection_count r = 0"
  shows "state (serverConnect p a r) = ''online''" "r_connected (serverConnect p a r)"
    "effects (serverConnect p a r) = effects r @
       [Emit ''state'' (StrArg ''online''), Emit ''connect'' NoArg, Emit ''connected'' NoArg] @
       (if 1 = int (length (r_servers r)) then [Emit ''ready'' NoArg] else [])"
proof -
  let ?r2 = "if p then setPrimaryServer a (r\<lparr>r_connection_count := r_connection_count r + 1\<rparr>)
             else r\<lparr>r_connection_count := r_connection_count r + 1\<rparr>"
  from assms have "state ?r2 = ''offline''" by (auto simp: conn_inv_def)
  note so = setState_online[OF this]
  have sc: "serverConnect p a r =
     (if 1 = int (length (r_servers r)) then emit ''ready'' NoArg (setState ''online'' ?r2)
      else setState ''online'' ?r2)"
    using assms(2) by (simp add: serverConnect_def Let_def)
  have e2: "effects ?r2 = effects r" by simp
  show "state (serverConnect p a r) = ''online''" using so by (simp add: sc emit_def)
  show "r_connected (serverConnect p a r)" using so by (simp add: sc emit_def)
  show "effects (serverConnect p a r) = effects r @
       [Emit ''state'' (StrArg ''online''), Emit ''connect'' NoArg, Emit ''connected'' NoArg] @
       (if 1 = int (length (r_servers r)) then [Emit ''ready'' NoArg] else [])"
    using so e2 by (simp add: sc emit_def)
qed

lemma serverConnect_other:
  assumes "r_connection_count r \<noteq> 0"
  shows "state (serverConnect p a r) = state r" "r_connected (serverConnect p a r) = r_connected r"
    "effects (serverConnect p a r) = effects r @
       (if r_connection_count r + 1 = int (length (r_servers r)) then [Emit ''ready'' NoArg] else [])"
  using assms by (simp_all add: serverConnect_def Let_def emit_def)

lemma serverConnect_inv: "conn_inv r \<Longrightarrow> conn_inv (serverConnect p a r)"
proof (cases "r_connection_count r = 0")
  case True
  assume "conn_inv r"
  from serverConnect_first[OF this True, of p a] True show ?thesis
    by (simp add: conn_inv_def)
next
  case False
  assume "conn_inv r"
  with serverConnect_other[OF False, of p a] False show ?thesis
    by (auto simp add: conn_inv_def)
qed

lemma serverDisconnect_last:
  assumes "conn_inv r" "r_connection_count r = 1"
  shows "state (serverDisconnect r) = ''offline''" "\<not> r_connected (serverDisconnect r)"
    "effects (serverDisconnect r) = effects r @
       [Emit ''state'' (StrArg ''offline''), Emit ''disconnect'' NoArg, Emit ''disconnected'' NoArg]"
proof -
  let ?r1 = "r\<lparr>r_connection_count := r_connection_count r - 1\<rparr>"
  from assms have "state ?r1 = ''online''" by (auto simp: conn_inv_def)
  note so = setState_offline[OF this]
  have sd: "serverDisconnect r = setState ''offline'' ?r1"
    using assms(2) by (simp add: serverDisconnect_def Let_def)
  show "state (serverDisconnect r) = ''offline''" using so by (simp add: sd)
  show "\<not> r_connected (serverDisconnect r)" using so by (simp add: sd)
  show "effects (serverDisconnect r) = effects r @
       [Emit ''state'' (StrArg ''offline''), Emit ''disconnect'' NoArg, Emit ''disconnected'' NoArg]"
    using so by (simp add: sd)
qed

lemma serverDisconnect_other:
  assumes "r_connection_count r \<noteq> 1"
  shows "state (serverDisconnect r) = state r" "r_connected (serverDisconnect r) = r_connected r"
    "effects (serverDisconnect r) = effects r"
  using assms by (simp_all add: serverDisconnect_def Let_def)

lemma serverDisconnect_inv: "conn_inv r \<Longrightarrow> conn_inv (serverDisconnect r)"
proof (cases "r_connection_count r = 1")
  case True
  assume "conn_inv r"
  from serverDisconnect_last[OF this True] True show ?thesis
    by (simp add: conn_inv_def)
next
  case False
  assume "conn_inv r"
  with serverDisconnect_other[OF False] False show ?thesis
    by (auto simp add: conn_inv_def)
qed

lemma conn_inv_events: "conn_inv r \<Longrightarrow> conn_inv (on_server_events es r)"
proof (induction es arbitrary: r)
  case Nil
  then show ?case by simp
next
  case (Cons e es)
  have "conn_inv (on_server_event e r)"
    using Cons.prems serverConnect_inv serverDisconnect_inv by (cases e) simp_all
  then show ?case using Cons.IH by simp
qed

lemma conn_inv_addServers:
  "conn_inv r \<Longrightarrow> conn_inv (fold (\<lambda>(a, s). addServer a s) srvs r)"
proof (induction srvs arbitrary: r)
  case Nil
  then show ?case by simp
next
  case (Cons x xs)
  obtain a s where x: "x = (a, s)" by (cases x)
  have "conn_inv (addServer a s r)" using Cons.prems by (auto simp add: conn_inv_def addServer_def)
  then show ?case using Cons.IH x by simp
qed

lemma conn_inv_new: "conn_inv (Remote_fields cfg)"
  by (simp add: conn_inv_def Remote_fields_def Let_def)


text \<open>
  C4. For a Remote as constructed, with any servers added, and any sequence of connect
  and disconnect events of its servers: after the events the state is \<open>online\<close> exactly
  when the connection count is positive (and \<open>offline\<close> otherwise); the next event emits
  \<open>state\<close>, \<open>connect\<close>, \<open>connected\<close> once when it takes the count from 0 to 1,
  \<open>state\<close>, \<open>disconnect\<close>, \<open>disconnected\<close> once when it takes it from 1 to 0, and
  none of them otherwise (a connect that makes the count equal to the number of servers
  also emits \<open>ready\<close>); setting the state the Remote is already in changes nothing.
\<close>

theorem connection_state_machine:
  "let r = on_server_events es (fold (\<lambda>(a, s). addServer a s) srvs (Remote_fields cfg));
       r' = on_server_event e r
   in (state r = ''online'') = (0 < r_connection_count r)
    \<and> (state r = ''offline'') = (r_connection_count r \<le> 0)
    \<and> r_connected r = (0 < r_connection_count r)
    \<and> effects r' = effects r @
        (if r_connection_count r = 0 \<and> r_connection_count r' = 1
         then [Emit ''state'' (StrArg ''online''), Emit ''connect'' NoArg, Emit ''connected'' NoArg]
         else if r_connection_count r = 1 \<and> r_connection_count r' = 0
         then [Emit ''state'' (StrArg ''offline''), Emit ''disconnect'' NoArg, Emit ''disconnected'' NoArg]
         else []) @
        (case e of
           ServerConnects primary a \<Rightarrow>
             if r_connection_count r' = int (length (r_servers r')) then [Emit ''ready'' NoArg] else []
         | ServerDisconnects a \<Rightarrow> [])
    \<and> setState (state r) r = r"
proof -
  define r where "r = on_server_events es (fold (\<lambda>(a, s). addServer a s) srvs (Remote_fields cfg))"
  have inv: "conn_inv r"
    unfolding r_def by (intro conn_inv_events conn_inv_addServers conn_inv_new)
  have 1: "(state r = ''online'') = (0 < r_connection_count r)"
    and 2: "(state r = ''offline'') = (r_connection_count r \<le> 0)"
    and 3: "r_connected r = (0 < r_connection_count r)"
    using inv by (auto simp: conn_inv_def)
  have 4: "effects (on_server_event e r) = effects r @
        (if r_connection_count r = 0 \<and> r_connection_count (on_server_event e r) = 1
         then [Emit ''state'' (StrArg ''online''), Emit ''connect'' NoArg, Emit ''connected'' NoArg]
         else if r_connection_count r = 1 \<and> r_connection_count (on_server_event e r) = 0
         then [Emit ''state'' (StrArg ''offline''), Emit ''disconnect'' NoArg, Emit ''disconnected'' NoArg]
         else []) @
        (case e of
           ServerConnects primary a \<Rightarrow>
             if r_connection_count (on_server_event e r) = int (length (r_servers (on_server_event e r)))
             then [Emit ''ready'' NoArg] else []
         | ServerDisconnects a \<Rightarrow> [])"
  proof (cases e)
    case (ServerConnects p a)
    show ?thesis
    proof (cases "r_connection_count r = 0")
      case True
      from serverConnect_first(3)[OF inv True, of p a] True show ?thesis
        by (simp add: ServerConnects)
    next
      case False
      from serverConnect_other(3)[OF False, of p a] False show ?thesis
        by (simp add: ServerConnects)
    qed
  next
    case (ServerDisconnects a)
    show ?thesis
    proof (cases "r_connection_count r = 1")
      case True
      from serverDisconnect_last(3)[OF inv True] True show ?thesis
        by (simp add: ServerDisconnects)
    next
      case False
      from serverDisconnect_other(3)[OF False] False show ?thesis
        by (simp add: ServerDisconnects)
    qed
  qed
  show ?thesis
    unfolding Let_def r_def[symmetric] using 1 2 3 4 setState_same by blast
qed

theorem connection_state_machine_witness:
  "state (on_server_events [ServerConnects False 0, ServerConnects False 1, ServerDisconnects 0]
            (fold (\<lambda>(a, s). addServer a s) [(0, srv0), (1, srv0)] (Remote_fields no_opts))) = ''online''
   \<and> effects (on_server_event (ServerDisconnects 1)
        (on_server_events [ServerConnects False 0, ServerConnects False 1, ServerDisconnects 0]
            (fold (\<lambda>(a, s). addServer a s) [(0, srv0), (1, srv0)] (Remote_fields no_opts)))) =
      [Emit ''state'' (StrArg ''online''), Emit ''connect'' NoArg, Emit ''connected'' NoArg,
       Emit ''ready'' NoArg,
       Emit ''state'' (StrArg ''offline''), Emit ''disconnect'' NoArg, Emit ''disconnected'' NoArg]"
proof -
  let ?es = "[ServerConnects False 0, ServerConnects False 1, ServerDisconnects 0]"
  let ?r = "on_server_events ?es
            (fold (\<lambda>(a, s). addServer a s) [(0, srv0), (1, srv0)] (Remote_fields no_opts))"
  have c: "r_connection_count ?r = 1"
    by (simp add: addServer_def)
  have c': "r_connection_count (on_server_event (ServerDisconnects 1) ?r) = 0"
    by (simp add: addServer_def)
  from connection_state_machine[of ?es "[(0, srv0), (1, srv0)]" no_opts "ServerDisconnects 1"]
  have "(state ?r = ''online'') = (0 < r_connection_count ?r)"
    and "effects (on_server_event (ServerDisconnects 1) ?r) = effects ?r @
        (if r_connection_count ?r = 0 \<and> r_connection_count (on_server_event (ServerDisconnects 1) ?r) = 1
         then [Emit ''state'' (StrArg ''online''), Emit ''connect'' NoArg, Emit ''connected'' NoArg]
         else if r_connection_count ?r = 1 \<and> r_connection_count (on_server_event (ServerDisconnects 1) ?r) = 0
         then [Emit ''state'' (StrArg ''offline''), Emit ''disconnect'' NoArg, Emit ''disconnected'' NoArg]
         else []) @ []"
    unfolding Let_def by simp_all
  moreover have "effects ?r = [Emit ''state'' (StrArg ''online''), Emit ''connect'' NoArg, Emit ''connected'' NoArg,
       Emit ''ready'' NoArg]"
    by (simp add: serverConnect_def serverDisconnect_def setState_def emit_def Let_def addServer_def)
  ultimately show ?thesis using c c' by simp
qed

section \<open>Properties of the account sequence cache\<close>

lemma toUpperCase_ADVANCE: "toUpperCase ''ADVANCE'' = ''ADVANCE''"
  by (simp add: toUpperCase_def toUpperCase_char_def)

text \<open>
  C9, as stated, fails for a modifier that is not a string: on an entry initialized to
  10, a call without modifier does not leave the sequence unchanged and return it, it
  raises a TypeError at \<open>advance.toUpperCase()\<close>.
\<close>

theorem getAccountSequence_no_modifier_counterexample:
  "getAccountSequence id ''alice'' Undefined (setAccountSeq id ''alice'' (Fin 10) (Remote_fields no_opts))
     = Inl (TypeError ''Cannot read property toUpperCase of undefined'')"
  by (simp add: getAccountSequence_def setAccountSeq_def Let_def)

text \<open>
  C9, amended. After \<open>setAccountSeq(account, 10)\<close>, three calls of
  \<open>getAccountSequence(account, 'ADVANCE')\<close> return 10, 11 and 12 and leave 13 stored. A
  call with a string modifier on an entry holding the number \<open>n\<close> returns \<open>n\<close> and
  stores \<open>n + 1\<close> when the upper-cased modifier is \<open>ADVANCE\<close>, \<open>n - 1\<close> when it is
  \<open>REWIND\<close>, and \<open>n\<close> for any other string. Without an entry the call returns
  \<open>undefined\<close> and changes nothing, whatever the modifier. With an entry and a modifier
  that is not a string the call raises a TypeError.
\<close>

theorem getAccountSequence_advance:
  "(\<exists>r1 r2 r3.
      getAccountSequence jr A (String ''ADVANCE'') (setAccountSeq jr A (Fin 10) r) = Inr (Some (Fin 10), r1)
    \<and> getAccountSequence jr A (String ''ADVANCE'') r1 = Inr (Some (Fin 11), r2)
    \<and> getAccountSequence jr A (String ''ADVANCE'') r2 = Inr (Some (Fin 12), r3)
    \<and> map_option seq (accounts r3 (jr A)) = Some (Some (Fin 13)))
 \<and> (\<forall>n a. map_option seq (accounts r (jr A)) = Some (Some (Fin n)) \<longrightarrow>
      (\<exists>r'. getAccountSequence jr A (String a) r = Inr (Some (Fin n), r')
        \<and> map_option seq (accounts r' (jr A)) =
            Some (Some (Fin (n + (if toUpperCase a = ''ADVANCE'' then 1
                                  else if toUpperCase a = ''REWIND'' then - 1 else 0))))))
 \<and> (accounts r (jr A) = None \<longrightarrow> getAccountSequence jr A adv r = Inr (None, r))
 \<and> (accounts r (jr A) \<noteq> None \<and> typeof adv \<noteq> ''string'' \<longrightarrow>
      (\<exists>msg. getAccountSequence jr A adv r = Inl (TypeError msg)))"
proof (intro conjI allI impI)
  show "\<exists>r1 r2 r3.
      getAccountSequence jr A (String ''ADVANCE'') (setAccountSeq jr A (Fin 10) r) = Inr (Some (Fin 10), r1)
    \<and> getAccountSequence jr A (String ''ADVANCE'') r1 = Inr (Some (Fin 11), r2)
    \<and> getAccountSequence jr A (String ''ADVANCE'') r2 = Inr (Some (Fin 12), r3)
    \<and> map_option seq (accounts r3 (jr A)) = Some (Some (Fin 13))"
    by (simp add: getAccountSequence_def setAccountSeq_def Let_def toUpperCase_ADVANCE)
next
  fix n a
  assume "map_option seq (accounts r (jr A)) = Some (Some (Fin n))"
  then obtain info where "accounts r (jr A) = Some info" "seq info = Some (Fin n)"
    by auto
  then show "\<exists>r'. getAccountSequence jr A (String a) r = Inr (Some (Fin n), r')
        \<and> map_option seq (accounts r' (jr A)) =
            Some (Some (Fin (n + (if toUpperCase a = ''ADVANCE'' then 1
                                  else if toUpperCase a = ''REWIND'' then - 1 else 0))))"
    by (simp add: getAccountSequence_def Let_def)
next
  assume "accounts r (jr A) = None"
  then show "getAccountSequence jr A adv r = Inr (None, r)"
    by (simp add: getAccountSequence_def Let_def)
next
  assume "accounts r (jr A) \<noteq> None \<and> typeof adv \<noteq> ''string''"
  then obtain info where "accounts r (jr A) = Some info" and "typeof adv \<noteq> ''string''"
    by auto
  then show "\<exists>msg. getAccountSequence jr A adv r = Inl (TypeError msg)"
    by (cases adv) (simp_all add: getAccountSequence_def Let_def)
qed

theorem getAccountSequence_advance_witness:
  "(\<exists>r'. getAccountSequence id ''alice'' (String ''rewind'')
            (setAccountSeq id ''alice'' (Fin 10) (Remote_fields no_opts)) = Inr (Some (Fin 10), r')
        \<and> map_option seq (accounts r' ''alice'') = Some (Some (Fin 9)))
   \<and> getAccountSequence id ''alice'' (String ''ADVANCE'') (Remote_fields no_opts)
       = Inr (None, Remote_fields no_opts)
   \<and> (\<exists>msg. getAccountSequence id ''alice'' (Number (Fin 1))
            (setAccountSeq id ''alice'' (Fin 10) (Remote_fields no_opts)) = Inl (TypeError msg))"
proof -
  let ?r = "setAccountSeq id ''alice'' (Fin 10) (Remote_fields no_opts)"
  have h1: "map_option seq (accounts ?r (id ''alice'')) = Some (Some (Fin 10))"
    by (simp add: setAccountSeq_def)
  have h2: "accounts (Remote_fields no_opts) (id ''alice'') = None"
    by simp
  have h3: "accounts ?r (id ''alice'') \<noteq> None \<and> typeof (Number (Fin 1)) \<noteq> ''string''"
    by (simp add: setAccountSeq_def)
  have up: "toUpperCase ''rewind'' = ''REWIND''"
    by (simp add: toUpperCase_def toUpperCase_char_def)
  from getAccountSequence_advance[of id "''alice''" ?r] h1
  have "\<exists>r'. getAccountSequence id ''alice'' (String ''rewind'') ?r = Inr (Some (Fin 10), r')
        \<and> map_option seq (accounts r' (id ''alice'')) =
            Some (Some (Fin (10 + (if toUpperCase ''rewind'' = ''ADVANCE'' then 1
                                  else if toUpperCase ''rewind'' = ''REWIND'' then - 1 else 0))))"
    by blast
  moreover from getAccountSequence_advance[of id "''alice''" "Remote_fields no_opts"] h2
  have "getAccountSequence id ''alice'' (String ''ADVANCE'') (Remote_fields no_opts)
       = Inr (None, Remote_fields no_opts)"
    by blast
  moreover from getAccountSequence_advance[of id "''alice''" ?r "Number (Fin 1)"] h3
  have "\<exists>msg. getAccountSequence id ''alice'' (Number (Fin 1)) ?r = Inl (TypeError msg)"
    by blast
  ultimately show ?thesis by (simp add: up)
qed

section \<open>Properties of the ledger tracker\<close>

lemma ledger_msg_sel:
  "ledger_index (ledger_msg i) = Number (Fin i)"
  "ledger_hash (ledger_msg i) = String ''ABCD''"
  "ledger_time (ledger_msg i) = Number (Fin 1000)"
  by (simp_all add: ledger_msg_def)

lemma subscribe_msg_sel:
  "sub_ledger_index (subscribe_msg i) = Some (Fin i)"
  "sub_ledger_hash (subscribe_msg i) = Some ''ABCD''"
  "sub_ledger_time (subscribe_msg i) = Some (Fin 1000)"
  "sub_stand_alone (subscribe_msg i) = None"
  "sub_testnet (subscribe_msg i) = None"
  by (simp_all add: subscribe_msg_def)

lemma valid_ledger_msg: "isValidLedgerData (ledger_msg i)"
  by (simp add: isValidLedgerData_def ledger_msg_def)

text \<open>
  C2. A freshly constructed Remote has \<open>_ledger_current_index\<close> still \<open>undefined\<close>, and
  \<open>message.ledger_index >= undefined\<close> is false for every number: of the four well-formed
  \<open>ledgerClosed\<close> messages with indices 5, 7, 6, 8 none is accepted, no \<open>ledger_closed\<close>
  event is emitted and the tracked index stays \<open>undefined\<close>, where the specification
  has 5, 7 and 8 accepted and the index end at 9.
\<close>

theorem ledgerClosed_on_fresh_Remote:
  "r_ledger_current_index
     (on_ledger_inputs [LedgerClosed (ledger_msg 5), LedgerClosed (ledger_msg 7),
                        LedgerClosed (ledger_msg 6), LedgerClosed (ledger_msg 8)]
        (Remote_fields no_opts)) = None
   \<and> effects
     (on_ledger_inputs [LedgerClosed (ledger_msg 5), LedgerClosed (ledger_msg 7),
                        LedgerClosed (ledger_msg 6), LedgerClosed (ledger_msg 8)]
        (Remote_fields no_opts)) = []
   \<and> Remote no_opts = Inr (Remote_fields no_opts)
   \<and> isValidLedgerData (ledger_msg 5)"
  by (simp add: handleLedgerClosed_def valid_ledger_msg Let_def Remote_def emit_def ledger_msg_sel)
     (simp add: no_opts_def)

text \<open>
  Once a subscribe acknowledgment has set the index (here to 5), the same four messages
  are accepted for 5, 7 and 8 and the index ends at 9.
\<close>

lemma ledgerClosed_after_subscribe:
  "r_ledger_current_index
     (on_ledger_inputs [Subscribed (subscribe_msg 4), LedgerClosed (ledger_msg 5), LedgerClosed (ledger_msg 7),
                        LedgerClosed (ledger_msg 6), LedgerClosed (ledger_msg 8)]
        (Remote_fields no_opts)) = Some (Fin 9)
   \<and> effects
     (on_ledger_inputs [Subscribed (subscribe_msg 4), LedgerClosed (ledger_msg 5), LedgerClosed (ledger_msg 7),
                        LedgerClosed (ledger_msg 6), LedgerClosed (ledger_msg 8)]
        (Remote_fields no_opts)) =
      [Emit ''ledger_closed'' (SubscribeArg (subscribe_msg 4)), Emit ''subscribed'' NoArg,
       Emit ''ledger_closed'' (LedgerArg (ledger_msg 5)),
       Emit ''ledger_closed'' (LedgerArg (ledger_msg 7)),
       Emit ''ledger_closed'' (LedgerArg (ledger_msg 8))]"
  by (simp add: handleLedgerClosed_def serverSubscribed_def valid_ledger_msg Let_def emit_def
        truthy_string_def truthy_number_def ledger_msg_sel subscribe_msg_sel)

text \<open>
  C1. The listener of the subscribe acknowledgment has no test of the index: after an
  acknowledgment for ledger 9 has set the tracked index to 10, an acknowledgment for
  ledger 3 (from a server that lags behind) sets it to 4, where the specification has
  the update refused and the index never decrease.
\<close>

theorem serverSubscribed_moves_index_back:
  "r_ledger_current_index (on_ledger_inputs [Subscribed (subscribe_msg 9)] (Remote_fields no_opts)) = Some (Fin 10)
   \<and> r_ledger_current_index
       (on_ledger_inputs [Subscribed (subscribe_msg 9), Subscribed (subscribe_msg 3)] (Remote_fields no_opts))
       = Some (Fin 4)
   \<and> effects
       (on_ledger_inputs [Subscribed (subscribe_msg 9), Subscribed (subscribe_msg 3)] (Remote_fields no_opts))
       = [Emit ''ledger_closed'' (SubscribeArg (subscribe_msg 9)), Emit ''subscribed'' NoArg,
          Emit ''ledger_closed'' (SubscribeArg (subscribe_msg 3)), Emit ''subscribed'' NoArg]"
  by (simp add: serverSubscribed_def Let_def emit_def truthy_string_def truthy_number_def subscribe_msg_sel)

text \<open>
  The path of the \<open>ledgerClosed\<close> message has the test: it leaves the index as it is or
  sets it to a number that is at least the previous one.
\<close>

lemma num_ge_add_1: "num_ge i c \<Longrightarrow> num_ge (num_add i (Fin 1)) c"
  by (cases i; cases c) simp_all

lemma handleLedgerClosed_monotone:
  "r_ledger_current_index (handleLedgerClosed m r) = r_ledger_current_index r
   \<or> (\<exists>i. r_ledger_current_index (handleLedgerClosed m r) = Some i
           \<and> num_ge i (ToNumber (r_ledger_current_index r)))"
  by (auto simp add: handleLedgerClosed_def Let_def emit_def intro: num_ge_add_1)

section \<open>Properties of the transaction de-duplication\<close>

lemma fold_notify_account:
  "fold (notify_account m) as r =
     r\<lparr>effects := effects r @ map (\<lambda>a. AccountNotify a m) (filter (\<lambda>a. a \<in> r_accounts r) as)\<rparr>"
  by (induction as arbitrary: r) (simp_all add: notify_account_def)

lemma fold_notify_book:
  "fold (notify_book m) bs r =
     r\<lparr>effects := effects r @ map (\<lambda>b. BookNotify b m) (filter (\<lambda>b. b \<in> r_books r) bs)\<rparr>"
  by (induction bs arbitrary: r) (simp_all add: notify_book_def)

lemma handleTransaction_new:
  assumes "tx_hash m \<notin> set (r_received_tx r)"
  shows "handleTransaction m r =
     r\<lparr>r_received_tx := (if tx_validated m then lru_set (tx_hash m) (r_received_tx r) else r_received_tx r),
       effects := effects r @ fan_out m r\<rparr>"
  using assms
  by (simp add: handleTransaction_def lru_get_def Let_def fold_notify_account fold_notify_book
        emit_def fan_out_def notifications_def split: option.splits prod.splits)

lemma handleTransaction_seen:
  assumes "tx_hash m \<in> set (r_received_tx r)"
  shows "handleTransaction m r =
     r\<lparr>r_received_tx := tx_hash m # removeAll (tx_hash m) (r_received_tx r)\<rparr>"
  using assms by (simp add: handleTransaction_def lru_get_def Let_def)

lemma lru_set_member: "k \<in> set (lru_set k c)"
  by (simp add: lru_set_def lru_max_def)


lemma fan_out_frame:
  "r_accounts r' = r_accounts r \<Longrightarrow> r_books r' = r_books r \<Longrightarrow> fan_out x r' = fan_out x r"
  by (simp add: fan_out_def notifications_def split: option.splits prod.splits)

lemma handleTransactions_unvalidated:
  assumes "\<forall>m \<in> set ms. tx_hash m = H \<and> \<not> tx_validated m" "H \<notin> set (r_received_tx r)"
  shows "r_received_tx (handleTransactions ms r) = r_received_tx r
       \<and> r_accounts (handleTransactions ms r) = r_accounts r
       \<and> r_books (handleTransactions ms r) = r_books r
       \<and> effects (handleTransactions ms r) = effects r @ concat (map (\<lambda>m. fan_out m r) ms)"
  using assms
proof (induction ms arbitrary: r)
  case Nil
  then show ?case by simp
next
  case (Cons m ms)
  let ?r1 = "handleTransaction m r"
  from Cons.prems have m: "tx_hash m = H" "\<not> tx_validated m" by simp_all
  with Cons.prems(2) have r1: "?r1 = r\<lparr>effects := effects r @ fan_out m r\<rparr>"
    by (simp add: handleTransaction_new)
  have fo: "\<And>x. fan_out x ?r1 = fan_out x r"
    by (rule fan_out_frame) (simp_all add: r1)
  from Cons.prems have "\<forall>m \<in> set ms. tx_hash m = H \<and> \<not> tx_validated m" by simp
  moreover have "H \<notin> set (r_received_tx ?r1)" using Cons.prems(2) by (simp add: r1)
  ultimately have "r_received_tx (handleTransactions ms ?r1) = r_received_tx ?r1
       \<and> r_accounts (handleTransactions ms ?r1) = r_accounts ?r1
       \<and> r_books (handleTransactions ms ?r1) = r_books ?r1
       \<and> effects (handleTransactions ms ?r1) = effects ?r1 @ concat (map (\<lambda>m. fan_out m ?r1) ms)"
    by (rule Cons.IH)
  then show ?case by (simp add: fo) (simp add: r1)
qed

text \<open>
  C3. A transaction message whose hash is not in the cache is fanned out in full, and its
  hash is put into the cache exactly when the message is validated; so any number of
  unvalidated deliveries of a hash \<open>H\<close> that is not in the cache are all fanned out and
  leave the cache as it is. A message whose hash is in the cache is discarded: nothing is
  notified or emitted and nothing changes but the recency order of the cache, in which
  the hash stays.
\<close>

theorem handleTransaction_dedup:
  "(tx_hash m \<notin> set (r_received_tx r) \<longrightarrow>
       effects (handleTransaction m r) = effects r @ fan_out m r
     \<and> (tx_validated m \<longrightarrow> tx_hash m \<in> set (r_received_tx (handleTransaction m r)))
     \<and> (\<not> tx_validated m \<longrightarrow> r_received_tx (handleTransaction m r) = r_received_tx r))
 \<and> (tx_hash m \<in> set (r_received_tx r) \<longrightarrow>
       handleTransaction m r = r\<lparr>r_received_tx := tx_hash m # removeAll (tx_hash m) (r_received_tx r)\<rparr>
     \<and> effects (handleTransaction m r) = effects r
     \<and> tx_hash m \<in> set (r_received_tx (handleTransaction m r)))
 \<and> ((\<forall>x \<in> set ms. tx_hash x = H \<and> \<not> tx_validated x) \<and> H \<notin> set (r_received_tx r) \<longrightarrow>
       effects (handleTransactions ms r) = effects r @ concat (map (\<lambda>x. fan_out x r) ms)
     \<and> r_received_tx (handleTransactions ms r) = r_received_tx r)"
proof (intro conjI impI)
  assume new: "tx_hash m \<notin> set (r_received_tx r)"
  show "effects (handleTransaction m r) = effects r @ fan_out m r"
    by (simp add: handleTransaction_new[OF new])
  show "tx_hash m \<in> set (r_received_tx (handleTransaction m r))" if "tx_validated m"
    using that by (simp add: handleTransaction_new[OF new] lru_set_member)
  show "r_received_tx (handleTransaction m r) = r_received_tx r" if "\<not> tx_validated m"
    using that by (simp add: handleTransaction_new[OF new])
next
  assume seen: "tx_hash m \<in> set (r_received_tx r)"
  show "handleTransaction m r = r\<lparr>r_received_tx := tx_hash m # removeAll (tx_hash m) (r_received_tx r)\<rparr>"
    by (rule handleTransaction_seen[OF seen])
  show "effects (handleTransaction m r) = effects r"
    by (simp add: handleTransaction_seen[OF seen])
  show "tx_hash m \<in> set (r_received_tx (handleTransaction m r))"
    by (simp add: handleTransaction_seen[OF seen])
next
  assume a: "(\<forall>x \<in> set ms. tx_hash x = H \<and> \<not> tx_validated x) \<and> H \<notin> set (r_received_tx r)"
  then have 1: "\<forall>x \<in> set ms. tx_hash x = H \<and> \<not> tx_validated x" and 2: "H \<notin> set (r_received_tx r)"
    by blast+
 show "effects (handleTransactions ms r) = effects r @ concat (map (\<lambda>x. fan_out x r) ms)"
    using handleTransactions_unvalidated[OF 1 2] by blast
  show "r_received_tx (handleTransactions ms r) = r_received_tx r"
    using handleTransactions_unvalidated[OF 1 2] by blast
qed

lemma fan_out_tx_msg:
  "r_accounts r = {''alice''} \<Longrightarrow> fan_out (tx_msg h v) r =
     [AccountNotify ''alice'' (tx_msg h v), Emit ''transaction'' (TxArg (tx_msg h v)),
      Emit ''transaction_all'' (TxArg (tx_msg h v))]"
  by (simp add: fan_out_def notifications_def direct_accounts_def tx_msg_def)

theorem handleTransaction_dedup_witness:
  "effects (handleTransactions [tx_msg ''H'' False, tx_msg ''H'' False] remote_with_account) =
     [AccountNotify ''alice'' (tx_msg ''H'' False), Emit ''transaction'' (TxArg (tx_msg ''H'' False)),
      Emit ''transaction_all'' (TxArg (tx_msg ''H'' False)),
      AccountNotify ''alice'' (tx_msg ''H'' False), Emit ''transaction'' (TxArg (tx_msg ''H'' False)),
      Emit ''transaction_all'' (TxArg (tx_msg ''H'' False))]
   \<and> r_received_tx (handleTransaction (tx_msg ''H'' True) remote_with_account) = [''H'']
   \<and> effects (handleTransaction (tx_msg ''H'' False)
        (handleTransaction (tx_msg ''H'' True) remote_with_account)) =
      [AccountNotify ''alice'' (tx_msg ''H'' True), Emit ''transaction'' (TxArg (tx_msg ''H'' True)),
       Emit ''transaction_all'' (TxArg (tx_msg ''H'' True))]"
proof -
  let ?r = remote_with_account
  let ?u = "tx_msg ''H'' False"
  let ?v = "tx_msg ''H'' True"
  have acc: "r_accounts ?r = {''alice''}" and c0: "r_received_tx ?r = []" and e0: "effects ?r = []"
    by (simp_all add: remote_with_account_def)
  have h [simp]: "tx_hash ?u = ''H''" "tx_hash ?v = ''H''" "\<not> tx_validated ?u" "tx_validated ?v"
    by (simp_all add: tx_msg_def)
  have "(\<forall>x \<in> set [?u, ?u]. tx_hash x = ''H'' \<and> \<not> tx_validated x) \<and> ''H'' \<notin> set (r_received_tx ?r)"
    by (simp add: c0)
  with handleTransaction_dedup[of ?u ?r "[?u, ?u]" "''H''"]
  have 1: "effects (handleTransactions [?u, ?u] ?r) = effects ?r @ concat (map (\<lambda>x. fan_out x ?r) [?u, ?u])"
    by blast
  have new: "tx_hash ?v \<notin> set (r_received_tx ?r)" by (simp add: c0)
  let ?r1 = "handleTransaction ?v ?r"
  from handleTransaction_dedup[of ?v ?r "[]" "''H''"] new
  have 2: "effects ?r1 = effects ?r @ fan_out ?v ?r" and 3: "tx_hash ?v \<in> set (r_received_tx ?r1)"
    by simp_all
  have seen: "tx_hash ?u \<in> set (r_received_tx ?r1)" using 3 by simp
  from handleTransaction_dedup[of ?u ?r1 "[]" "''H''"] seen
  have 4: "effects (handleTransaction ?u ?r1) = effects ?r1" by blast
  have 5: "r_received_tx ?r1 = [''H'']"
    by (simp add: handleTransaction_new[OF new] lru_set_def lru_max_def c0)
  show ?thesis
    using 1 2 4 5 by (simp add: fan_out_tx_msg[OF acc] e0)
qed

section \<open>Properties of the request router\<close>

lemma starts_with_request_iff: "starts_with_request s \<longleftrightarrow> (\<exists>rest. s = ''request_'' @ rest)"
proof
  assume "starts_with_request s"
  then have "take 8 s = ''request_''" by (simp add: starts_with_request_def)
  then have "s = ''request_'' @ drop 8 s" by (metis append_take_drop_id)
  then show "\<exists>rest. s = ''request_'' @ rest" ..
next
  assume "\<exists>rest. s = ''request_'' @ rest"
  then show "starts_with_request s" by (auto simp: starts_with_request_def)
qed

lemma Remote_prototype_requestPing: "Remote_prototype ''requestPing'' = Function 16"
  by (simp add: Remote_prototype_def Remote_prototype_table_def)

lemma Remote_prototype_request_ping: "Remote_prototype ''request_ping'' = Undefined"
  by (simp add: Remote_prototype_def Remote_prototype_table_def)

text \<open>
  C5, as stated, fails for a command that already starts with \<open>request_\<close>: the source
  prefixes only when \<open>/^request_/\<close> does not match, so \<open>request('request_ping')\<close> calls
  the property \<open>request_ping\<close>, although no property is named by prefixing \<open>request_\<close>
  to the command.
\<close>

theorem request_prefixed_name_counterexample:
  "request with_request_ping (\<lambda>f args. f) (Command ''request_ping'') [] (Remote_fields no_opts)
     = (Inr (Some 16), Remote_fields no_opts)
   \<and> with_request_ping (''request_'' @ ''request_ping'') = Undefined"
  by (simp add: request_def starts_with_request_def with_request_ping_def Remote_prototype_requestPing)
     (simp add: Remote_prototype_def Remote_prototype_table_def)

text \<open>
  C5, amended. The derived name is the command itself when it starts with \<open>request_\<close>,
  and \<open>request_\<close> followed by the command otherwise. When the Remote's property of
  the derived name is a function, \<open>request\<close> calls it with the remaining arguments and
  returns its result; otherwise it raises the error \<open>Command does not exist: \<close> followed by
  the derived name. The Remote is left as it is either way.
\<close>

theorem request_by_name:
  "(let derived = (if (\<exists>rest. name = ''request_'' @ rest) then name else ''request_'' @ name) in
      (\<exists>f. this derived = Function f
         \<and> request this apply (Command name) args r = (Inr (Some (apply f args)), r))
    \<or> (typeof (this derived) \<noteq> ''function''
         \<and> request this apply (Command name) args r =
             (Inl (Error (''Command does not exist: '' @ derived)), r)))"
proof -
  define derived where "derived = (if (\<exists>rest. name = ''request_'' @ rest) then name else ''request_'' @ name)"
  have d: "(if \<not> starts_with_request name then ''request_'' @ name else name) = derived"
    by (simp add: derived_def starts_with_request_iff)
  have "(\<exists>f. this derived = Function f
         \<and> request this apply (Command name) args r = (Inr (Some (apply f args)), r))
    \<or> (typeof (this derived) \<noteq> ''function''
         \<and> request this apply (Command name) args r =
             (Inl (Error (''Command does not exist: '' @ derived)), r))"
    by (cases "this derived") (simp_all add: request_def Let_def d)
  then show ?thesis by (simp add: Let_def derived_def)
qed

text \<open>
  With \<open>request_ping\<close> present, \<open>request('ping')\<close> calls it; on the properties that
  \<open>remote.js\<close> alone defines, which are camel-cased, it raises.
\<close>

theorem request_by_name_witness:
  "request with_request_ping (\<lambda>f args. f) (Command ''ping'') [] (Remote_fields no_opts)
     = (Inr (Some 16), Remote_fields no_opts)
   \<and> request Remote_prototype (\<lambda>f args. f) (Command ''ping'') [] (Remote_fields no_opts)
     = (Inl (Error ''Command does not exist: request_ping''), Remote_fields no_opts)"
proof -
  have n: "\<not> (\<exists>rest. ''ping'' = ''request_'' @ rest)" by simp
  have w: "with_request_ping ''request_ping'' = Function 16"
    by (simp add: with_request_ping_def Remote_prototype_requestPing)
  from request_by_name[of "''ping''" with_request_ping "\<lambda>f args. f" "[]" "Remote_fields no_opts"] n w
  have 1: "request with_request_ping (\<lambda>f args. f) (Command ''ping'') [] (Remote_fields no_opts)
     = (Inr (Some 16), Remote_fields no_opts)"
    by (simp add: Let_def)
  from request_by_name[of "''ping''" Remote_prototype "\<lambda>f args. f" "[]" "Remote_fields no_opts"] n
    Remote_prototype_request_ping
  have 2: "request Remote_prototype (\<lambda>f args. f) (Command ''ping'') [] (Remote_fields no_opts)
     = (Inl (Error ''Command does not exist: request_ping''), Remote_fields no_opts)"
    by (simp add: Let_def)
  from 1 2 show ?thesis by simp
qed

section \<open>Properties of the server selection\<close>

lemma first_connected_none:
  "\<forall>a \<in> set as. \<not> is_connected h a \<Longrightarrow>
   first_connected h as = Inl (TypeError ''Cannot read property _connected of undefined'')"
  by (induction as) (auto simp: is_connected_def split: option.splits)

lemma first_connected_not_undefined: "first_connected h as \<noteq> Inr None"
  by (induction as) (auto split: option.splits)

lemma first_connected_some:
  "first_connected h as = Inr (Some a) \<Longrightarrow> a \<in> set as \<and> is_connected h a"
  by (induction as) (auto simp: is_connected_def split: option.splits if_splits)

lemma first_connected_least:
  "sorted (map k as) \<Longrightarrow> first_connected h as = Inr (Some a) \<Longrightarrow>
   \<forall>b \<in> set as. is_connected h b \<longrightarrow> k a \<le> k b"
proof (induction as)
  case Nil
  then show ?case by simp
next
  case (Cons x xs)
  show ?case
  proof (cases "is_connected h x")
    case True
    with Cons.prems(2) have "a = x" by (auto simp: is_connected_def split: option.splits)
    with Cons.prems(1) show ?thesis by auto
  next
    case False
    with Cons.prems(2) have "first_connected h xs = Inr (Some a)"
      by (auto simp: is_connected_def split: option.splits if_splits)
    with Cons.IH Cons.prems(1) have "\<forall>b \<in> set xs. is_connected h b \<longrightarrow> k a \<le> k b" by simp
    with False show ?thesis by auto
  qed
qed

lemma first_connected_exists:
  "\<forall>a \<in> set as. h a \<noteq> None \<Longrightarrow> \<exists>a \<in> set as. is_connected h a \<Longrightarrow>
   \<exists>a. first_connected h as = Inr (Some a)"
  by (induction as) (auto simp: is_connected_def split: option.splits)

text \<open>
  Without a connected primary and without a connected entry, \<open>getServer\<close> raises; it
  never returns a falsy value, so the tests \<open>if (!server)\<close> and \<open>if (server)\<close> of its
  callers cannot take their error branches.
\<close>

lemma getServer_none_connected:
  assumes "\<not> primary_connected r" "\<forall>a \<in> set (r_servers r). \<not> is_connected (server_objs r) a"
  shows "fst (getServer r) = Inl (TypeError ''Cannot read property _connected of undefined'')"
  using assms by (simp add: getServer_def Let_def first_connected_none)

lemma getServer_not_undefined: "fst (getServer r) \<noteq> Inr None"
  by (auto simp add: getServer_def Let_def first_connected_not_undefined primary_connected_def
        split: option.splits)

lemma first_connected_error:
  "first_connected h as = Inl e \<Longrightarrow> e = TypeError ''Cannot read property _connected of undefined''"
  by (induction as) (auto split: option.splits if_splits)

lemma getServer_error:
  "fst (getServer r) = Inl e \<Longrightarrow> e = TypeError ''Cannot read property _connected of undefined''"
  by (auto simp add: getServer_def Let_def split: if_splits dest: first_connected_error)

lemma feeTx_never_its_own_error:
  "fst (feeTx f units r) \<noteq> Inl (Error ''No connected servers'')"
proof (cases "getServer r")
  case (Pair res r1)
  with getServer_not_undefined[of r] getServer_error[of r] show ?thesis
    by (cases res) (auto simp: feeTx_def split: option.splits)
qed

text \<open>
  A connected primary is returned whatever the scores; otherwise, when some entry is
  connected, the result is a connected entry of least \<open>_score + _fee\<close> among them.
\<close>

lemma getServer_primary:
  "primary_connected r \<Longrightarrow> getServer r = (Inr (r_primary_server r), r)"
  by (simp add: getServer_def)

lemma getServer_best_connected:
  assumes "\<not> primary_connected r" "\<forall>a \<in> set (r_servers r). server_objs r a \<noteq> None"
    "\<exists>a \<in> set (r_servers r). is_connected (server_objs r) a"
  shows "\<exists>a. fst (getServer r) = Inr (Some a) \<and> a \<in> set (r_servers r)
           \<and> is_connected (server_objs r) a
           \<and> (\<forall>b \<in> set (r_servers r). is_connected (server_objs r) b \<longrightarrow>
                 sortByScore_key (server_objs r) a \<le> sortByScore_key (server_objs r) b)"
proof -
  let ?k = "sortByScore_key (server_objs r)"
  let ?xs = "sort_key ?k (r_servers r)"
  have g: "fst (getServer r) = first_connected (server_objs r) ?xs"
    using assms(1) by (simp add: getServer_def Let_def)
  have s: "set ?xs = set (r_servers r)" by simp
  from first_connected_exists[of ?xs "server_objs r"] assms(2,3) s
  obtain a where a: "first_connected (server_objs r) ?xs = Inr (Some a)" by auto
  have "sorted (map ?k ?xs)" by (rule sorted_sort_key)
  from first_connected_least[OF this a] first_connected_some[OF a] s g a
  show ?thesis by auto
qed

text \<open>
  C6. With one server registered and not yet connected, or with no server at all,
  \<open>getServer\<close> does not return "no server": the loop reads \<open>_connected\<close> of
  \<open>undefined\<close> and raises a TypeError, and \<open>feeTx\<close> fails with that TypeError
  before it can raise its own \<open>No connected servers\<close>.
\<close>

theorem getServer_without_connection:
  "fst (getServer (addServer 0 srv0 (Remote_fields no_opts)))
     = Inl (TypeError ''Cannot read property _connected of undefined'')
   \<and> fst (getServer (Remote_fields no_opts))
     = Inl (TypeError ''Cannot read property _connected of undefined'')
   \<and> fst (feeTx (\<lambda>a units. units) (10::nat) (addServer 0 srv0 (Remote_fields no_opts)))
     = Inl (TypeError ''Cannot read property _connected of undefined'')
   \<and> fst (feeTxUnit (\<lambda>a. a) (addServer 0 srv0 (Remote_fields no_opts)))
     = Inl (TypeError ''Cannot read property _connected of undefined'')
   \<and> fst (reserve (\<lambda>a owner_count. owner_count) (2::nat) (addServer 0 srv0 (Remote_fields no_opts)))
     = Inl (TypeError ''Cannot read property _connected of undefined'')"
  by (simp add: getServer_def feeTx_def feeTxUnit_def reserve_def primary_connected_def addServer_def
        srv0_def Let_def)

section \<open>Properties of disconnecting\<close>

lemma Remote_prototype_set_state: "Remote_prototype ''_set_state'' = Undefined"
  by (simp add: Remote_prototype_def Remote_prototype_table_def)

lemma Remote_prototype_setState: "Remote_prototype ''_setState'' = Function 0"
  by (simp add: Remote_prototype_def Remote_prototype_table_def)

lemma with_set_state_set_state: "with_set_state ''_set_state'' = Function 0"
  by (simp add: with_set_state_def Remote_prototype_setState)

lemma fold_server_disconnect_state:
  assumes "\<forall>a x. state (server_disconnect a x) = state x"
  shows "state (fold (\<lambda>a r. server_disconnect a (r\<lparr>effects := effects r @ [ServerDisconnect a]\<rparr>)) as r)
           = state r"
  using assms by (induction as arbitrary: r) simp_all

lemma connected_remote_sel:
  "state connected_remote = ''online''" "r_servers connected_remote = [0]"
  "effects connected_remote =
     [Emit ''state'' (StrArg ''online''), Emit ''connect'' NoArg, Emit ''connected'' NoArg,
      Emit ''ready'' NoArg]"
  by (simp_all add: connected_remote_def serverConnect_def setState_def emit_def addServer_def Let_def)

text \<open>
  C10, as stated, fails for a Remote that holds a function under \<open>_set_state\<close>, here
  the function of \<open>_setState\<close> under its under_scored name: \<open>disconnect\<close> tells the
  server to disconnect, calls \<open>_set_state('offline')\<close>, which sets the state to
  \<open>offline\<close> and emits the three events, and returns normally.
\<close>

theorem disconnect_returns_counterexample:
  "fst (disconnect with_set_state call_Remote (\<lambda>a r. r) None connected_remote) = Inr ()
   \<and> state connected_remote = ''online''
   \<and> state (snd (disconnect with_set_state call_Remote (\<lambda>a r. r) None connected_remote)) = ''offline''
   \<and> effects (snd (disconnect with_set_state call_Remote (\<lambda>a r. r) None connected_remote)) =
       effects connected_remote @
       [ServerDisconnect 0, Emit ''state'' (StrArg ''offline''), Emit ''disconnect'' NoArg,
        Emit ''disconnected'' NoArg]"
  by (simp add: disconnect_def Let_def with_set_state_set_state connected_remote_sel
        setState_def emit_def)

text \<open>
  C10, amended. For every property table of the Remote: with at least one server,
  \<open>disconnect\<close> registers the callback and tells every server to disconnect; then, when
  the Remote holds no function under \<open>_set_state\<close>, it raises a TypeError and leaves the
  Remote as the servers' disconnects left it (its state unchanged when they do not touch
  it), and when it holds one, it calls that function with \<open>offline\<close> and returns. Without
  servers it raises \<open>No servers available, not disconnecting\<close> and changes nothing.
  \<open>remote.js\<close> itself assigns \<open>_setState\<close> and no \<open>_set_state\<close>.
\<close>

theorem disconnect_by_set_state:
  "(let after_servers =
          fold (\<lambda>a r. server_disconnect a (r\<lparr>effects := effects r @ [ServerDisconnect a]\<rparr>))
            (r_servers r)
            (case callback of
               None \<Rightarrow> r
             | Some fn \<Rightarrow> r\<lparr>effects := effects r @ [Once ''disconnect'' (UserFunction fn)]\<rparr>)
    in (r_servers r \<noteq> [] \<and> typeof (this ''_set_state'') \<noteq> ''function'' \<longrightarrow>
          disconnect this call server_disconnect callback r =
            (Inl (TypeError ''this._set_state is not a function''), after_servers))
     \<and> (r_servers r \<noteq> [] \<and> typeof (this ''_set_state'') \<noteq> ''function''
          \<and> (\<forall>a x. state (server_disconnect a x) = state x) \<longrightarrow>
          state (snd (disconnect this call server_disconnect callback r)) = state r)
     \<and> (\<forall>f. r_servers r \<noteq> [] \<and> this ''_set_state'' = Function f \<longrightarrow>
          disconnect this call server_disconnect callback r =
            (Inr (), call f [String ''offline''] after_servers))
     \<and> (r_servers r = [] \<longrightarrow>
          disconnect this call server_disconnect callback r =
            (Inl (Error ''No servers available, not disconnecting''), r)))
 \<and> Remote_prototype ''_set_state'' = Undefined
 \<and> Remote_prototype ''_setState'' = Function 0"
proof -
  define after_servers where "after_servers =
          fold (\<lambda>a r. server_disconnect a (r\<lparr>effects := effects r @ [ServerDisconnect a]\<rparr>))
            (r_servers r)
            (case callback of
               None \<Rightarrow> r
             | Some fn \<Rightarrow> r\<lparr>effects := effects r @ [Once ''disconnect'' (UserFunction fn)]\<rparr>)"
  have d: "r_servers r \<noteq> [] \<Longrightarrow> disconnect this call server_disconnect callback r =
      (case this ''_set_state'' of
         Function f \<Rightarrow> (Inr (), call f [String ''offline''] after_servers)
       | _ \<Rightarrow> (Inl (TypeError ''this._set_state is not a function''), after_servers))"
    by (cases callback; cases "this ''_set_state''")
       (simp_all add: disconnect_def Let_def after_servers_def)
  have 1: "disconnect this call server_disconnect callback r =
            (Inl (TypeError ''this._set_state is not a function''), after_servers)"
    if "r_servers r \<noteq> [] \<and> typeof (this ''_set_state'') \<noteq> ''function''"
    using that by (cases "this ''_set_state''") (simp_all add: d)
  have 2: "state (snd (disconnect this call server_disconnect callback r)) = state r"
    if h: "r_servers r \<noteq> [] \<and> typeof (this ''_set_state'') \<noteq> ''function''
          \<and> (\<forall>a x. state (server_disconnect a x) = state x)"
  proof -
    from h have f: "\<forall>a x. state (server_disconnect a x) = state x" by blast
    have "state after_servers = state r"
      unfolding after_servers_def by (cases callback) (simp_all add: fold_server_disconnect_state[OF f])
    with 1 h show ?thesis by simp
  qed
  have 3: "disconnect this call server_disconnect callback r =
            (Inr (), call f [String ''offline''] after_servers)"
    if "r_servers r \<noteq> [] \<and> this ''_set_state'' = Function f" for f
    using that by (simp add: d)
  have 4: "disconnect this call server_disconnect callback r =
            (Inl (Error ''No servers available, not disconnecting''), r)" if "r_servers r = []"
    using that by (simp add: disconnect_def)
  show ?thesis
    unfolding Let_def after_servers_def[symmetric]
    using 1 2 3 4 Remote_prototype_set_state Remote_prototype_setState by blast
qed

theorem disconnect_by_set_state_witness:
  "disconnect Remote_prototype call_Remote (\<lambda>a r. r) None connected_remote
     = (Inl (TypeError ''this._set_state is not a function''),
        connected_remote\<lparr>effects := effects connected_remote @ [ServerDisconnect 0]\<rparr>)
   \<and> state (snd (disconnect Remote_prototype call_Remote (\<lambda>a r. r) None connected_remote)) = ''online''
   \<and> fst (disconnect with_set_state call_Remote (\<lambda>a r. r) None connected_remote) = Inr ()
   \<and> state (snd (disconnect with_set_state call_Remote (\<lambda>a r. r) None connected_remote)) = ''offline''
   \<and> disconnect Remote_prototype call_Remote (\<lambda>a r. r) None (Remote_fields no_opts)
     = (Inl (Error ''No servers available, not disconnecting''), Remote_fields no_opts)"
proof -
  let ?after = "fold (\<lambda>a r. (\<lambda>a r. r) a (r\<lparr>effects := effects r @ [ServerDisconnect a]\<rparr>))
            (r_servers connected_remote)
            (case None of
               None \<Rightarrow> connected_remote
             | Some fn \<Rightarrow> connected_remote\<lparr>effects := effects connected_remote @ [Once ''disconnect'' (UserFunction fn)]\<rparr>)"
  have after: "?after = connected_remote\<lparr>effects := effects connected_remote @ [ServerDisconnect 0]\<rparr>"
    by (simp add: connected_remote_sel)
  have h1: "r_servers connected_remote \<noteq> [] \<and> typeof (Remote_prototype ''_set_state'') \<noteq> ''function''"
    by (simp add: connected_remote_sel Remote_prototype_set_state)
  have h2: "r_servers connected_remote \<noteq> [] \<and> typeof (Remote_prototype ''_set_state'') \<noteq> ''function''
          \<and> (\<forall>a x. state ((\<lambda>a r. r) a x) = state x)"
    by (simp add: connected_remote_sel Remote_prototype_set_state)
  have h3: "r_servers connected_remote \<noteq> [] \<and> with_set_state ''_set_state'' = Function 0"
    by (simp add: connected_remote_sel with_set_state_set_state)
  have h4: "r_servers (Remote_fields no_opts) = []" by simp
  note t = disconnect_by_set_state[of "\<lambda>a r. r" connected_remote None Remote_prototype call_Remote,
      unfolded Let_def]
  note u = disconnect_by_set_state[of "\<lambda>a r. r" connected_remote None with_set_state call_Remote,
      unfolded Let_def]
  note v = disconnect_by_set_state[of "\<lambda>a r. r" "Remote_fields no_opts" None Remote_prototype call_Remote,
      unfolded Let_def]
  from t h1 have 1: "disconnect Remote_prototype call_Remote (\<lambda>a r. r) None connected_remote
     = (Inl (TypeError ''this._set_state is not a function''), ?after)"
    by blast
  from t h2 have 2: "state (snd (disconnect Remote_prototype call_Remote (\<lambda>a r. r) None connected_remote))
     = state connected_remote"
    by blast
  from u h3 have 3: "disconnect with_set_state call_Remote (\<lambda>a r. r) None connected_remote
     = (Inr (), call_Remote 0 [String ''offline''] ?after)"
    by blast
  from v h4 have 4: "disconnect Remote_prototype call_Remote (\<lambda>a r. r) None (Remote_fields no_opts)
     = (Inl (Error ''No servers available, not disconnecting''), Remote_fields no_opts)"
    by blast
  have 5: "state (call_Remote 0 [String ''offline''] ?after) = ''offline''"
    by (simp add: after setState_def emit_def connected_remote_sel)
  from 1 2 3 4 5 show ?thesis by (simp add: after connected_remote_sel)
qed

section \<open>Properties of the sequence refresh\<close>

lemmas seq_cache_defs = accountSeqCache_def new_request_def request_once_def update_request_def
  update_account_def request_callback_def request_emit_def take_once_def emit_callbacks_def
  in_flight_def cached_seq_def Let_def

lemma accountSeqCache_first:
  assumes "in_flight r A = None"
  shows "fst (accountSeqCache A l (Some cb) r) = next_request r"
    and "next_request (snd (accountSeqCache A l (Some cb) r)) = Suc (next_request r)"
    and "in_flight (snd (accountSeqCache A l (Some cb) r)) A = Some (next_request r)"
    and "cached_seq (snd (accountSeqCache A l (Some cb) r)) A = cached_seq r A"
    and "effects (snd (accountSeqCache A l (Some cb) r)) = effects r"
    and "map_option req_once (request_objs (snd (accountSeqCache A l (Some cb) r)) (next_request r)) =
           Some [(''success'', AccountRootSuccess A (next_request r)),
                 (''error'', AccountRootError A (next_request r)),
                 (''success_account_seq_cache'', CallbackSuccess cb),
                 (''error_account_seq_cache'', CallbackError cb)]"
  using assms
  by (cases "accounts r A"; simp add: seq_cache_defs split: option.splits)+

lemma accountSeqCache_attach:
  assumes "in_flight r A = Some q" "map_option req_once (request_objs r q) = Some ls"
  shows "fst (accountSeqCache A l (Some cb) r) = q"
    and "next_request (snd (accountSeqCache A l (Some cb) r)) = next_request r"
    and "in_flight (snd (accountSeqCache A l (Some cb) r)) A = Some q"
    and "cached_seq (snd (accountSeqCache A l (Some cb) r)) A = cached_seq r A"
    and "effects (snd (accountSeqCache A l (Some cb) r)) = effects r"
    and "map_option req_once (request_objs (snd (accountSeqCache A l (Some cb) r)) q) =
           Some (ls @ [(''success_account_seq_cache'', CallbackSuccess cb),
                       (''error_account_seq_cache'', CallbackError cb)])"
  using assms
  by (cases "accounts r A"; auto simp add: seq_cache_defs split: option.splits)+


lemma request_emit_success:
  assumes "in_flight r A = Some q"
    "map_option req_once (request_objs r q) = Some (two_callers A q cb1 cb2)"
  shows "in_flight (request_emit q ''success'' (NodeArg sq) r) A = None"
    and "cached_seq (request_emit q ''success'' (NodeArg sq) r) A = sq"
    and "effects (request_emit q ''success'' (NodeArg sq) r) =
           effects r @ [Callback cb1 (NodeArg sq), Callback cb2 (NodeArg sq)]"
    and "next_request (request_emit q ''success'' (NodeArg sq) r) = next_request r"
  using assms
  by (cases "accounts r A"; auto simp add: seq_cache_defs two_callers_def split: option.splits)+

lemma request_emit_error:
  assumes "in_flight r A = Some q"
    "map_option req_once (request_objs r q) = Some (two_callers A q cb1 cb2)"
  shows "in_flight (request_emit q ''error'' (ErrArg e) r) A = None"
    and "cached_seq (request_emit q ''error'' (ErrArg e) r) A = cached_seq r A"
    and "effects (request_emit q ''error'' (ErrArg e) r) =
           effects r @ [Callback cb1 (ErrArg e), Callback cb2 (ErrArg e)]"
    and "next_request (request_emit q ''error'' (ErrArg e) r) = next_request r"
  using assms
  by (cases "accounts r A"; auto simp add: seq_cache_defs two_callers_def split: option.splits)+


text \<open>
  C7. When no refresh is in flight for an account, a first call of \<open>accountSeqCache\<close>
  makes a new \<open>ledger_entry\<close> request and a second call, made before the response,
  returns that same request and makes none: one lookup for both. When the request
  succeeds, the in-flight marker is cleared, the cached sequence is the \<open>Sequence\<close> of
  the fetched node, and both callers' functions are called with that same response. When
  it fails, the marker is cleared, the cached sequence is left as it was, both callers'
  functions are called with the error, and a later call makes a new request.
\<close>

theorem accountSeqCache_single_flight:
  "in_flight r A = None \<longrightarrow>
    (let (q1, r1) = accountSeqCache A l1 (Some cb1) r;
         (q2, r2) = accountSeqCache A l2 (Some cb2) r1;
         ok = request_emit q1 ''success'' (NodeArg sq) r2;
         ko = request_emit q1 ''error'' (ErrArg e) r2
     in q1 = next_request r \<and> q2 = q1
      \<and> next_request r1 = Suc (next_request r) \<and> next_request r2 = next_request r1
      \<and> in_flight r2 A = Some q1
      \<and> cached_seq ok A = sq \<and> in_flight ok A = None
      \<and> effects ok = effects r @ [Callback cb1 (NodeArg sq), Callback cb2 (NodeArg sq)]
      \<and> cached_seq ko A = cached_seq r A \<and> in_flight ko A = None
      \<and> effects ko = effects r @ [Callback cb1 (ErrArg e), Callback cb2 (ErrArg e)]
      \<and> fst (accountSeqCache A l3 (Some cb3) ko) = next_request ko
      \<and> next_request (snd (accountSeqCache A l3 (Some cb3) ko)) = Suc (next_request ko))"
proof
  assume free: "in_flight r A = None"
  obtain q1 r1 where c1: "accountSeqCache A l1 (Some cb1) r = (q1, r1)" by (cases "accountSeqCache A l1 (Some cb1) r")
  obtain q2 r2 where c2: "accountSeqCache A l2 (Some cb2) r1 = (q2, r2)" by (cases "accountSeqCache A l2 (Some cb2) r1")
  note f = accountSeqCache_first[OF free, of l1 cb1, unfolded c1 fst_conv snd_conv]
  have q1: "q1 = next_request r" using f(1) .
  have fl1: "in_flight r1 A = Some q1" using f(3) q1 by simp
  have ls1: "map_option req_once (request_objs r1 q1) =
           Some [(''success'', AccountRootSuccess A q1), (''error'', AccountRootError A q1),
                 (''success_account_seq_cache'', CallbackSuccess cb1),
                 (''error_account_seq_cache'', CallbackError cb1)]"
    using f(6) q1 by simp
  note a = accountSeqCache_attach[OF fl1 ls1, of l2 cb2, unfolded c2 fst_conv snd_conv]
  have q2: "q2 = q1" using a(1) .
  have fl2: "in_flight r2 A = Some q1" using a(3) .
  have ls2: "map_option req_once (request_objs r2 q1) = Some (two_callers A q1 cb1 cb2)"
    using a(6) by (simp add: two_callers_def)
  note ok = request_emit_success[OF fl2 ls2, of sq]
  note ko = request_emit_error[OF fl2 ls2, of e]
  note again = accountSeqCache_first[OF ko(1), of l3 cb3]
  have e2: "effects r2 = effects r" using a(5) f(5) by simp
  have s2: "cached_seq r2 A = cached_seq r A" using a(4) f(4) by simp
  show "let (q1, r1) = accountSeqCache A l1 (Some cb1) r;
         (q2, r2) = accountSeqCache A l2 (Some cb2) r1;
         ok = request_emit q1 ''success'' (NodeArg sq) r2;
         ko = request_emit q1 ''error'' (ErrArg e) r2
     in q1 = next_request r \<and> q2 = q1
      \<and> next_request r1 = Suc (next_request r) \<and> next_request r2 = next_request r1
      \<and> in_flight r2 A = Some q1
      \<and> cached_seq ok A = sq \<and> in_flight ok A = None
      \<and> effects ok = effects r @ [Callback cb1 (NodeArg sq), Callback cb2 (NodeArg sq)]
      \<and> cached_seq ko A = cached_seq r A \<and> in_flight ko A = None
      \<and> effects ko = effects r @ [Callback cb1 (ErrArg e), Callback cb2 (ErrArg e)]
      \<and> fst (accountSeqCache A l3 (Some cb3) ko) = next_request ko
      \<and> next_request (snd (accountSeqCache A l3 (Some cb3) ko)) = Suc (next_request ko)"
    unfolding c1 c2 Let_def prod.case
    using q1 q2 f(2) a(2) fl2 ok(1,2,3) ko(1,2,3) again(1,2) e2 s2 by simp
qed

theorem accountSeqCache_single_flight_witness:
  "fst (accountSeqCache ''alice'' Undefined (Some 1) (Remote_fields no_opts)) = 0
   \<and> fst (accountSeqCache ''alice'' Undefined (Some 2)
            (snd (accountSeqCache ''alice'' Undefined (Some 1) (Remote_fields no_opts)))) = 0
   \<and> effects (request_emit 0 ''success'' (NodeArg (Some (Fin 42)))
        (snd (accountSeqCache ''alice'' Undefined (Some 2)
            (snd (accountSeqCache ''alice'' Undefined (Some 1) (Remote_fields no_opts))))))
      = [Callback 1 (NodeArg (Some (Fin 42))), Callback 2 (NodeArg (Some (Fin 42)))]
   \<and> cached_seq (request_emit 0 ''success'' (NodeArg (Some (Fin 42)))
        (snd (accountSeqCache ''alice'' Undefined (Some 2)
            (snd (accountSeqCache ''alice'' Undefined (Some 1) (Remote_fields no_opts)))))) ''alice''
      = Some (Fin 42)"
proof -
  let ?r = "Remote_fields no_opts"
  have free: "in_flight ?r ''alice'' = None" by (simp add: in_flight_def)
  obtain q1 r1 where c1: "accountSeqCache ''alice'' Undefined (Some 1) ?r = (q1, r1)"
    by (cases "accountSeqCache ''alice'' Undefined (Some 1) ?r")
  obtain q2 r2 where c2: "accountSeqCache ''alice'' Undefined (Some 2) r1 = (q2, r2)"
    by (cases "accountSeqCache ''alice'' Undefined (Some 2) r1")
  from accountSeqCache_single_flight[of ?r "''alice''" Undefined 1 Undefined 2 "Some (Fin 42)"
      "Error ''no''" Undefined 3] free
  have "q1 = 0 \<and> q2 = q1
      \<and> cached_seq (request_emit q1 ''success'' (NodeArg (Some (Fin 42))) r2) ''alice'' = Some (Fin 42)
      \<and> effects (request_emit q1 ''success'' (NodeArg (Some (Fin 42))) r2) =
          effects ?r @ [Callback 1 (NodeArg (Some (Fin 42))), Callback 2 (NodeArg (Some (Fin 42)))]"
    unfolding c1 c2 Let_def prod.case by auto
  then show ?thesis unfolding c1 c2 fst_conv snd_conv by auto
qed

end
